theory Spec2Isabelle
  imports Complex_Main
begin

text \<open>
  A model of the reconciliation logic of the Productboard tools: the classification of
  records (duplicate notes, field copy), the executors that apply a plan item by item
  (field migration, bulk update from a file, company import, note deletion), the value
  cleaning they share, and the CSV helpers of the report. Each function of the source is
  a function here under the same name. A call on the remote system is a function that
  takes the state of the remote system and returns that state with either a value or a
  thrown error, so that a run is defined for every behaviour of the remote system.
  Fields of records carry a prefix that names the record.
\<close>

section \<open>Strings of the source language\<close>

text \<open>
  A string of the program is a sequence of code units. The model uses \<^typ>\<open>string\<close>,
  so a character is one code unit below 256; the white space that \<open>trim\<close> removes is
  the white space and line terminators of that range (tab, line feed, vertical tab, form
  feed, carriage return, space, no-break space).
\<close>

definition isWhiteSpace :: "char \<Rightarrow> bool" where
  "isWhiteSpace c = (c \<in> set [CHR 0x09, CHR 0x0A, CHR 0x0B, CHR 0x0C, CHR 0x0D, CHR 0x20, CHR 0xA0])"

definition trimStart :: "string \<Rightarrow> string" where
  "trimStart s = dropWhile isWhiteSpace s"

definition trim :: "string \<Rightarrow> string" where
  "trim s = rev (dropWhile isWhiteSpace (rev (dropWhile isWhiteSpace s)))"

text \<open>\<open>s.startsWith(p)\<close> and \<open>s.includes(p)\<close> for a string \<open>p\<close>.\<close>

definition startsWith :: "string \<Rightarrow> string \<Rightarrow> bool" where
  "startsWith s p = (take (length p) s = p)"

fun includes_str :: "string \<Rightarrow> string \<Rightarrow> bool" where
  "includes_str [] p = (p = [])"
| "includes_str (c # cs) p = (if startsWith (c # cs) p then True else includes_str cs p)"

text \<open>A value of type \<open>string | undefined | null\<close>.\<close>

datatype jsval = Null | Undefined | Str string

section \<open>Blank detection (csv-bulk-update)\<close>

text \<open>
  \<^verbatim>\<open>function isBlankValue(value) {
    if (value === null || value === undefined) return true;
    const trimmed = value.trim();
    return trimmed === '' || trimmed === '-' || trimmed === "'-"; }\<close>
\<close>

fun isBlankValue :: "jsval \<Rightarrow> bool" where
  "isBlankValue Null = True"
| "isBlankValue Undefined = True"
| "isBlankValue (Str v) =
     (let trimmed = trim v in trimmed = [] \<or> trimmed = ''-'' \<or> trimmed = [CHR 0x27, CHR ''-''])"

section \<open>CSV escaping and line parsing (csv-notes-import)\<close>

definition dquote :: char where
  "dquote = CHR 0x22"

text \<open>\<open>value.replace(/"/g, '""')\<close>: every double quote is doubled.\<close>

fun doubleQuotes :: "string \<Rightarrow> string" where
  "doubleQuotes [] = []"
| "doubleQuotes (c # cs) = (if c = dquote then dquote # dquote # doubleQuotes cs else c # doubleQuotes cs)"

text \<open>
  \<^verbatim>\<open>function escapeCSV(value) {
    if (value.includes(',') || value.includes('"') || value.includes('\n'))
      return `"${value.replace(/"/g, '""')}"`;
    return value; }\<close>
\<close>

definition escapeCSV :: "string \<Rightarrow> string" where
  "escapeCSV v =
     (if CHR '','' \<in> set v \<or> dquote \<in> set v \<or> CHR 0x0A \<in> set v
      then dquote # doubleQuotes v @ [dquote]
      else v)"

text \<open>
  The loop of \<open>parseCSVLine\<close> over the characters of the line. The arguments are the
  fields pushed so far (\<open>result\<close>), the field being read (\<open>current\<close>), the flag
  \<open>inQuotes\<close> and the characters from index \<open>i\<close> on. \<open>nextChar\<close> is \<open>line[i + 1]\<close>,
  undefined at the last character, where the test \<open>nextChar === '"'\<close> fails. After the
  loop the last field is pushed, trimmed as every field is.
\<close>

fun parseCSVLoop :: "string list \<Rightarrow> string \<Rightarrow> bool \<Rightarrow> string \<Rightarrow> string list" where
  "parseCSVLoop result current inQuotes [] = result @ [trim current]"
| "parseCSVLoop result current True [c] =
     (if c = dquote then parseCSVLoop result current False []
      else parseCSVLoop result (current @ [c]) True [])"
| "parseCSVLoop result current True (c # nextChar # rest) =
     (if c = dquote \<and> nextChar = dquote then parseCSVLoop result (current @ [dquote]) True rest
      else if c = dquote then parseCSVLoop result current False (nextChar # rest)
      else parseCSVLoop result (current @ [c]) True (nextChar # rest))"
| "parseCSVLoop result current False (c # rest) =
     (if c = dquote then parseCSVLoop result current True rest
      else if c = CHR '','' then parseCSVLoop (result @ [trim current]) [] False rest
      else parseCSVLoop result (current @ [c]) False rest)"

definition parseCSVLine :: "string \<Rightarrow> string list" where
  "parseCSVLine line = parseCSVLoop [] [] False line"

section \<open>The note-deletion action (convex/productboard)\<close>

text \<open>
  What a \<open>catch\<close> receives: an \<open>Error\<close> object with its name and its message, or any
  other value, held as the text \<open>String\<close> gives for it. An awaited call either returns
  a value or throws.
\<close>

datatype thrown = ErrorObject string string | ThrownValue string

datatype 'a outcome = Threw thrown | Returned 'a

record response =
  status :: nat
  body :: "string outcome"

record deleteNoteResult =
  dn_success :: bool
  dn_error :: "string option"
  dn_status :: "nat option"

text \<open>Decimal digits of a status code, as the template string prints a number.\<close>

function numberToString :: "nat \<Rightarrow> string" where
  "numberToString n =
     (if n < 10 then [''0123456789'' ! n]
      else numberToString (n div 10) @ [''0123456789'' ! (n mod 10)])"
  by pat_completeness auto
termination
  by (relation "measure id") auto

declare numberToString.simps [simp del]

definition SAFE_ERROR_MAP :: "nat \<Rightarrow> string option" where
  "SAFE_ERROR_MAP = map_of
     [(400, ''Invalid request parameters''),
      (401, ''Invalid or expired API token''),
      (403, ''Access denied - check token permissions''),
      (404, ''Resource not found''),
      (409, ''Conflict - resource already exists''),
      (422, ''Invalid data format''),
      (429, ''Rate limit exceeded - please wait and retry''),
      (500, ''Productboard server error''),
      (502, ''Productboard service unavailable''),
      (503, ''Productboard service temporarily unavailable''),
      (504, ''Request timed out'')]"

text \<open>
  \<open>sanitizeApiError\<close> logs the raw error on the server and returns
  \<open>SAFE_ERROR_MAP[status] || `Request failed (${status})`\<close>; no entry of the table is
  the empty string, so the default is taken exactly when the status has no entry.
\<close>

definition sanitizeApiError :: "nat \<Rightarrow> string \<Rightarrow> string" where
  "sanitizeApiError st rawError =
     (case SAFE_ERROR_MAP st of
        Some m \<Rightarrow> m
      | None \<Rightarrow> ''Request failed ('' @ numberToString st @ '')'')"

text \<open>\<open>toLowerCase\<close> on the letters A to Z; the other code units of the model have no
  lower-case form among the letters the tests below look for.\<close>

definition toLowerChar :: "char \<Rightarrow> char" where
  "toLowerChar c =
     (let n = (of_char c :: nat) in if 65 \<le> n \<and> n \<le> 90 then char_of (n + 32) else c)"

text \<open>\<open>error instanceof Error ? error.message : String(error)\<close>\<close>

definition messageOf :: "thrown \<Rightarrow> string" where
  "messageOf e = (case e of ErrorObject name message \<Rightarrow> message | ThrownValue v \<Rightarrow> v)"

definition sanitizeCatchError :: "thrown \<Rightarrow> string" where
  "sanitizeCatchError e =
     (let messageLower = map toLowerChar (messageOf e) in
      if includes_str messageLower ''fetch'' \<or> includes_str messageLower ''network''
        then ''Network error - check your connection''
      else if includes_str messageLower ''timeout'' then ''Request timed out''
      else if includes_str messageLower ''abort'' then ''Request was cancelled''
      else ''An unexpected error occurred'')"

text \<open>
  \<open>deleteNote\<close>, as a function of what \<open>fetch\<close> does: it throws, or it returns a
  response whose body is read only on the last path; reading it
  (\<open>response.text()\<close>) may throw too.
\<close>

definition deleteNote :: "response outcome \<Rightarrow> deleteNoteResult" where
  "deleteNote fetched =
     (case fetched of
        Threw e \<Rightarrow> \<lparr>dn_success = False, dn_error = Some (sanitizeCatchError e), dn_status = None\<rparr>
      | Returned r \<Rightarrow>
          if status r = 204 \<or> status r = 404
            then \<lparr>dn_success = True, dn_error = None, dn_status = Some (status r)\<rparr>
          else if status r = 429
            then \<lparr>dn_success = False, dn_error = Some ''Rate limit exceeded - please wait and retry'',
                  dn_status = Some 429\<rparr>
          else (case body r of
                  Threw e \<Rightarrow> \<lparr>dn_success = False, dn_error = Some (sanitizeCatchError e), dn_status = None\<rparr>
                | Returned errorText \<Rightarrow>
                    \<lparr>dn_success = False, dn_error = Some (sanitizeApiError (status r) errorText),
                     dn_status = Some (status r)\<rparr>))"

section \<open>Duplicate notes (modules/duplicate-notes)\<close>

text \<open>
  A note as \<open>findDuplicateGroups\<close> reads it. Optional fields are options;
  \<open>n_company\<close> is \<open>note.company?.id\<close>. The test \<open>x || ''\<close> takes the empty string for
  an absent field, and \<open>note.company?.id || null\<close> treats an empty id as no company.
\<close>

record Note =
  n_id :: string
  n_title :: "string option"
  n_content :: "string option"
  n_company :: "string option"
  n_createdAt :: "string option"

record DuplicateGroup =
  g_key :: string
  g_notes :: "Note list"
  g_keepNote :: Note
  g_deleteNotes :: "Note list"

definition orEmpty :: "string option \<Rightarrow> string" where
  "orEmpty v = (case v of None \<Rightarrow> [] | Some s \<Rightarrow> s)"

definition companyIdOf :: "Note \<Rightarrow> string option" where
  "companyIdOf note = (case n_company note of None \<Rightarrow> None | Some c \<Rightarrow> if c = [] then None else Some c)"

definition hasCompany :: "Note \<Rightarrow> bool" where
  "hasCompany note = (companyIdOf note \<noteq> None)"

text \<open>
  A \<open>Map\<close> keeps its keys in insertion order; \<open>set\<close> on a key already present
  replaces the value where it stands.
\<close>

type_synonym 'v jsmap = "(string \<times> 'v) list"

definition mapGet :: "'v jsmap \<Rightarrow> string \<Rightarrow> 'v option" where
  "mapGet m k = map_of m k"

definition mapSet :: "string \<Rightarrow> 'v \<Rightarrow> 'v jsmap \<Rightarrow> 'v jsmap" where
  "mapSet k v m =
     (if map_of m k = None then m @ [(k, v)]
      else map (\<lambda>(k', v'). if k' = k then (k', v) else (k', v')) m)"

definition getOrEmpty :: "'a list jsmap \<Rightarrow> string \<Rightarrow> 'a list" where
  "getOrEmpty m k = (case mapGet m k of None \<Rightarrow> [] | Some g \<Rightarrow> g)"

definition sep3 :: string where
  "sep3 = ''|||''"

text \<open>\<open>key.split('|||')\<close>: the separator is looked for from left to right.\<close>

function splitBars :: "string \<Rightarrow> string \<Rightarrow> string list" where
  "splitBars current [] = [current]"
| "splitBars current (c # cs) =
     (if startsWith (c # cs) sep3 then current # splitBars [] (drop 3 (c # cs))
      else splitBars (current @ [c]) cs)"
  by pat_completeness auto
termination
  by (relation "measure (\<lambda>(current, s). length s)") auto

definition split3 :: "string \<Rightarrow> string list" where
  "split3 s = splitBars [] s"

text \<open>An array element that may be out of range: \<open>parts[i]\<close> is undefined there.\<close>

definition nthOpt :: "'a list \<Rightarrow> nat \<Rightarrow> 'a option" where
  "nthOpt xs i = (if i < length xs then Some (xs ! i) else None)"

text \<open>A template string prints an undefined value as \<open>undefined\<close>.\<close>

definition showPart :: "string option \<Rightarrow> string" where
  "showPart p = (case p of None \<Rightarrow> ''undefined'' | Some s \<Rightarrow> s)"

text \<open>The first loop: notes grouped by key, with and without company.\<close>

fun groupNotes :: "Note list \<Rightarrow> Note list jsmap \<times> Note list jsmap \<Rightarrow> Note list jsmap \<times> Note list jsmap" where
  "groupNotes [] (groupsWithCompany, groupsWithoutCompany) = (groupsWithCompany, groupsWithoutCompany)"
| "groupNotes (note # notes) (groupsWithCompany, groupsWithoutCompany) =
     (let content = trim (orEmpty (n_content note));
          title = trim (orEmpty (n_title note))
      in case companyIdOf note of
           Some cid \<Rightarrow>
             (let key = content @ sep3 @ title @ sep3 @ cid;
                  group = getOrEmpty groupsWithCompany key
              in groupNotes notes (mapSet key (group @ [note]) groupsWithCompany, groupsWithoutCompany))
         | None \<Rightarrow>
             (let key = content @ sep3 @ title;
                  group = getOrEmpty groupsWithoutCompany key
              in groupNotes notes (groupsWithCompany, mapSet key (group @ [note]) groupsWithoutCompany)))"

text \<open>The inner loop of the merge: the notes without company are pushed to every
  matching group.\<close>

fun mergeInto :: "string list \<Rightarrow> Note list \<Rightarrow> Note list jsmap \<Rightarrow> Note list jsmap" where
  "mergeInto [] groupNoCompany duplicatesMap = duplicatesMap"
| "mergeInto (matchKey # matchingKeys) groupNoCompany duplicatesMap =
     mergeInto matchingKeys groupNoCompany
       (mapSet matchKey (getOrEmpty duplicatesMap matchKey @ groupNoCompany) duplicatesMap)"

fun mergeGroups :: "Note list jsmap \<Rightarrow> Note list jsmap \<Rightarrow> Note list jsmap" where
  "mergeGroups [] duplicatesMap = duplicatesMap"
| "mergeGroups ((keyNoCompany, groupNoCompany) # groupsWithoutCompany) duplicatesMap =
     (let parts = split3 keyNoCompany;
          content = nthOpt parts 0;
          title = nthOpt parts 1;
          matchingKeys = filter (\<lambda>k. nthOpt (split3 k) 0 = content \<and> nthOpt (split3 k) 1 = title)
                           (map fst duplicatesMap)
      in if length matchingKeys > 0
         then mergeGroups groupsWithoutCompany (mergeInto matchingKeys groupNoCompany duplicatesMap)
         else mergeGroups groupsWithoutCompany
                (mapSet (showPart content @ sep3 @ showPart title @ sep3 @ ''null'') groupNoCompany
                   duplicatesMap))"

text \<open>
  \<open>[...notes].sort((a, b) => dateA.localeCompare(dateB))\<close>. The comparison of the
  platform is a parameter, \<open>localeCompare a b\<close> negative, zero or positive; the sort is
  stable, and for a consistent comparison it is the insertion sort below.
\<close>

definition createdAtOf :: "Note \<Rightarrow> string" where
  "createdAtOf note = orEmpty (n_createdAt note)"

fun insertNote :: "(string \<Rightarrow> string \<Rightarrow> int) \<Rightarrow> Note \<Rightarrow> Note list \<Rightarrow> Note list" where
  "insertNote localeCompare a [] = [a]"
| "insertNote localeCompare a (b # bs) =
     (if localeCompare (createdAtOf a) (createdAtOf b) \<le> 0 then a # b # bs
      else b # insertNote localeCompare a bs)"

definition sortNotes :: "(string \<Rightarrow> string \<Rightarrow> int) \<Rightarrow> Note list \<Rightarrow> Note list" where
  "sortNotes localeCompare notes = foldr (insertNote localeCompare) notes []"

text \<open>The last loop: a group with at least two notes and two distinct ids is kept,
  sorted, with its note to keep and its notes to delete.\<close>

definition duplicateGroup :: "(string \<Rightarrow> string \<Rightarrow> int) \<Rightarrow> string \<times> Note list \<Rightarrow> DuplicateGroup list" where
  "duplicateGroup localeCompare entry =
     (case entry of (key, notes) \<Rightarrow>
        if length notes > 1 \<and> length (remdups (map n_id notes)) > 1
        then (let sorted = sortNotes localeCompare notes;
                  withCompany = filter hasCompany sorted
              in case (if length withCompany > 0 then withCompany else sorted) of
                   [] \<Rightarrow> []
                 | keepNote # _ \<Rightarrow>
                     [\<lparr>g_key = key, g_notes = sorted, g_keepNote = keepNote,
                       g_deleteNotes = filter (\<lambda>n. n_id n \<noteq> n_id keepNote) sorted\<rparr>])
        else [])"

definition findDuplicateGroups :: "(string \<Rightarrow> string \<Rightarrow> int) \<Rightarrow> Note list \<Rightarrow> DuplicateGroup list" where
  "findDuplicateGroups localeCompare notes =
     (case groupNotes notes ([], []) of
        (groupsWithCompany, groupsWithoutCompany) \<Rightarrow>
          concat (map (duplicateGroup localeCompare) (mergeGroups groupsWithoutCompany groupsWithCompany)))"

text \<open>Comparison by code units, which is how \<open>localeCompare\<close> orders ISO-8601
  time stamps of one format.\<close>

fun codeUnitCompare :: "string \<Rightarrow> string \<Rightarrow> int" where
  "codeUnitCompare [] [] = 0"
| "codeUnitCompare [] (b # bs) = - 1"
| "codeUnitCompare (a # as) [] = 1"
| "codeUnitCompare (a # as) (b # bs) =
     (if (of_char a :: nat) < of_char b then - 1
      else if (of_char b :: nat) < of_char a then 1
      else codeUnitCompare as bs)"

text \<open>A consistent comparison: total and transitive.\<close>

definition consistentCompare :: "(string \<Rightarrow> string \<Rightarrow> int) \<Rightarrow> bool" where
  "consistentCompare cmp =
     ((\<forall>a b. cmp a b \<le> 0 \<or> cmp b a \<le> 0) \<and> (\<forall>a b c. cmp a b \<le> 0 \<and> cmp b c \<le> 0 \<longrightarrow> cmp a c \<le> 0))"

text \<open>\<open>earlier cmp a b\<close>: note \<open>a\<close> sorts no later than note \<open>b\<close> by \<open>createdAt\<close>.\<close>

definition earlier :: "(string \<Rightarrow> string \<Rightarrow> int) \<Rightarrow> Note \<Rightarrow> Note \<Rightarrow> bool" where
  "earlier cmp a b = (cmp (createdAtOf a) (createdAtOf b) \<le> 0)"

text \<open>The three notes of the duplicate-grouping example.\<close>

definition noteA :: Note where
  "noteA = \<lparr>n_id = ''A'', n_title = Some ''t'', n_content = Some ''x'', n_company = Some ''C1'',
             n_createdAt = Some ''2020-01-01''\<rparr>"

definition noteB :: Note where
  "noteB = \<lparr>n_id = ''B'', n_title = Some ''t'', n_content = Some ''x'', n_company = Some ''C1'',
             n_createdAt = Some ''2020-02-01''\<rparr>"

definition noteC :: Note where
  "noteC = \<lparr>n_id = ''C'', n_title = Some ''t'', n_content = Some ''x'', n_company = None,
             n_createdAt = Some ''2019-01-01''\<rparr>"

section \<open>Custom-field migration (modules/custom-field-migration)\<close>

text \<open>
  The types of \<open>src/types\<close>. A field value (\<open>any\<close>) is a type parameter \<open>'v\<close>, with
  \<open>None\<close> for \<open>null\<close>.
\<close>

record CustomField =
  cf_id :: string
  cf_name :: string
  cf_type :: string

record Feature =
  f_id :: string
  f_name :: string

record FieldMapping =
  fm_id :: string
  fm_sourceFieldId :: string
  fm_targetFieldId :: string

datatype action = will_update | skipped_has_value | skipped_source_empty

text \<open>An entry of the \<open>results\<close> of \<open>getBatchCustomFieldValues\<close>.\<close>

record 'v fieldData =
  fd_value :: "'v option"
  fd_hasValue :: bool

record 'v PreviewItem =
  pi_featureId :: string
  pi_featureName :: string
  pi_sourceFieldId :: string
  pi_sourceFieldName :: string
  pi_targetFieldId :: string
  pi_targetFieldName :: string
  pi_sourceValue :: "'v option"
  pi_targetValue :: "'v option"
  pi_action :: action

record 'v MigrationResult =
  mr_featureId :: string
  mr_featureName :: string
  mr_sourceFieldName :: string
  mr_targetFieldName :: string
  mr_success :: bool
  mr_action :: string
  mr_newValue :: "'v option"
  mr_response :: string
  mr_error :: "string option"

text \<open>\<open>customFields.find(f => f.id === id)\<close> and \<open>field?.name || ''\<close>.\<close>

definition findField :: "CustomField list \<Rightarrow> string \<Rightarrow> CustomField option" where
  "findField customFields i = find (\<lambda>f. cf_id f = i) customFields"

definition fieldNameOrEmpty :: "CustomField option \<Rightarrow> string" where
  "fieldNameOrEmpty field = (case field of None \<Rightarrow> [] | Some f \<Rightarrow> cf_name f)"

text \<open>\<open>values.results[feature.id] || { value: null, hasValue: false }\<close>.\<close>

definition dataOrDefault :: "(string \<Rightarrow> 'v fieldData option) \<Rightarrow> string \<Rightarrow> 'v fieldData" where
  "dataOrDefault results i =
     (case results i of None \<Rightarrow> \<lparr>fd_value = None, fd_hasValue = False\<rparr> | Some d \<Rightarrow> d)"

text \<open>The decision of \<open>handleLoadPreview\<close> for one feature and one mapping.\<close>

definition previewAction :: "bool \<Rightarrow> 'v fieldData \<Rightarrow> 'v fieldData \<Rightarrow> action" where
  "previewAction onlyEmptyTargets sourceData targetData =
     (if \<not> fd_hasValue sourceData then skipped_source_empty
      else if onlyEmptyTargets \<and> fd_hasValue targetData then skipped_has_value
      else will_update)"

definition previewItem ::
  "bool \<Rightarrow> CustomField list \<Rightarrow> FieldMapping \<Rightarrow> (string \<Rightarrow> 'v fieldData option) \<Rightarrow>
   (string \<Rightarrow> 'v fieldData option) \<Rightarrow> Feature \<Rightarrow> 'v PreviewItem" where
  "previewItem onlyEmptyTargets customFields mapping sourceValues targetValues feature =
     (let sourceField = findField customFields (fm_sourceFieldId mapping);
          targetField = findField customFields (fm_targetFieldId mapping);
          sourceData = dataOrDefault sourceValues (f_id feature);
          targetData = dataOrDefault targetValues (f_id feature)
      in \<lparr>pi_featureId = f_id feature,
          pi_featureName = f_name feature,
          pi_sourceFieldId = fm_sourceFieldId mapping,
          pi_sourceFieldName = fieldNameOrEmpty sourceField,
          pi_targetFieldId = fm_targetFieldId mapping,
          pi_targetFieldName = fieldNameOrEmpty targetField,
          pi_sourceValue = fd_value sourceData,
          pi_targetValue = fd_value targetData,
          pi_action = previewAction onlyEmptyTargets sourceData targetData\<rparr>)"

text \<open>
  The loop over the valid mappings. \<open>getBatchCustomFieldValues customFieldId featureIds\<close>
  is the awaited action: it returns the \<open>results\<close> table or throws, and a throw leaves
  the loop (it is caught by \<open>handleLoadPreview\<close>).
\<close>

fun previewMappings ::
  "(string \<Rightarrow> string list \<Rightarrow> (string \<Rightarrow> 'v fieldData option) outcome) \<Rightarrow> bool \<Rightarrow>
   CustomField list \<Rightarrow> Feature list \<Rightarrow> FieldMapping list \<Rightarrow> 'v PreviewItem list \<Rightarrow>
   'v PreviewItem list outcome" where
  "previewMappings getBatchCustomFieldValues onlyEmptyTargets customFields allFeatures [] allItems =
     Returned allItems"
| "previewMappings getBatchCustomFieldValues onlyEmptyTargets customFields allFeatures
     (mapping # mappings) allItems =
     (case getBatchCustomFieldValues (fm_sourceFieldId mapping) (map f_id allFeatures) of
        Threw e \<Rightarrow> Threw e
      | Returned sourceValues \<Rightarrow>
          (case getBatchCustomFieldValues (fm_targetFieldId mapping) (map f_id allFeatures) of
             Threw e \<Rightarrow> Threw e
           | Returned targetValues \<Rightarrow>
               previewMappings getBatchCustomFieldValues onlyEmptyTargets customFields allFeatures
                 mappings
                 (allItems @ map (previewItem onlyEmptyTargets customFields mapping sourceValues
                                    targetValues) allFeatures)))"


text \<open>The part of the component state that the two handlers write, without the
  progress counter.\<close>

record 'v MigrationState =
  ms_features :: "Feature list"
  ms_previewItems :: "'v PreviewItem list"
  ms_isLoadingPreview :: bool
  ms_isExecuting :: bool
  ms_executionResults :: "'v MigrationResult list"
  ms_showConfirmModal :: bool


text \<open>
  What an executor does in time order: it pushes a result, or it waits
  (\<open>await new Promise(resolve => setTimeout(resolve, ms))\<close>).
\<close>

datatype 'r step = Pushed 'r | Waited nat

definition pushed :: "'r step list \<Rightarrow> 'r list" where
  "pushed steps = concat (map (\<lambda>s. case s of Pushed r \<Rightarrow> [r] | Waited ms \<Rightarrow> []) steps)"

definition waits :: "'r step list \<Rightarrow> nat list" where
  "waits steps = concat (map (\<lambda>s. case s of Pushed r \<Rightarrow> [] | Waited ms \<Rightarrow> [ms]) steps)"

text \<open>
  \<open>String(error)\<close> of a caught value. For an \<open>Error\<close> object it is the name, a colon
  and the message, or the one of the two that is not empty.
\<close>

definition errorString :: "thrown \<Rightarrow> string" where
  "errorString e =
     (case e of
        ErrorObject name message \<Rightarrow>
          if name = [] then message else if message = [] then name else name @ '': '' @ message
      | ThrownValue v \<Rightarrow> v)"

text \<open>
  The sink of the migration, \<open>setCustomFieldValue\<close>: a call on the remote system, whose
  state \<open>'s\<close> it may change; it returns \<open>{ success, response, error }\<close> or throws.
\<close>

record 'v setValueArgs =
  sa_customFieldId :: string
  sa_featureId :: string
  sa_value :: "'v option"
  sa_fieldType :: string

record setValueResult =
  sv_success :: bool
  sv_response :: "string option"
  sv_error :: "string option"

definition migrationResult :: "'v PreviewItem \<Rightarrow> setValueResult outcome \<Rightarrow> 'v MigrationResult" where
  "migrationResult item called =
     (case called of
        Returned result \<Rightarrow>
          \<lparr>mr_featureId = pi_featureId item, mr_featureName = pi_featureName item,
           mr_sourceFieldName = pi_sourceFieldName item, mr_targetFieldName = pi_targetFieldName item,
           mr_success = sv_success result, mr_action = ''updated'',
           mr_newValue = pi_sourceValue item, mr_response = orEmpty (sv_response result),
           mr_error = sv_error result\<rparr>
      | Threw e \<Rightarrow>
          \<lparr>mr_featureId = pi_featureId item, mr_featureName = pi_featureName item,
           mr_sourceFieldName = pi_sourceFieldName item, mr_targetFieldName = pi_targetFieldName item,
           mr_success = False, mr_action = ''failed'',
           mr_newValue = pi_sourceValue item, mr_response = [],
           mr_error = Some (errorString e)\<rparr>)"

definition setValueArgsOf :: "CustomField list \<Rightarrow> 'v PreviewItem \<Rightarrow> 'v setValueArgs" where
  "setValueArgsOf customFields item =
     \<lparr>sa_customFieldId = pi_targetFieldId item, sa_featureId = pi_featureId item,
      sa_value = pi_sourceValue item,
      sa_fieldType = (case findField customFields (pi_targetFieldId item) of
                        None \<Rightarrow> ''text''
                      | Some f \<Rightarrow> if cf_type f = [] then ''text'' else cf_type f)\<rparr>"

text \<open>The loop of \<open>handleExecuteMigration\<close> over \<open>itemsToUpdate\<close>.\<close>

fun executeItems ::
  "('v setValueArgs \<Rightarrow> 's \<Rightarrow> setValueResult outcome \<times> 's) \<Rightarrow> CustomField list \<Rightarrow>
   'v PreviewItem list \<Rightarrow> 's \<Rightarrow> 'v MigrationResult step list \<times> 's" where
  "executeItems setCustomFieldValue customFields [] s = ([], s)"
| "executeItems setCustomFieldValue customFields (item # items) s =
     (case setCustomFieldValue (setValueArgsOf customFields item) s of
        (called, s1) \<Rightarrow>
          (case executeItems setCustomFieldValue customFields items s1 of
             (steps, s2) \<Rightarrow> (Pushed (migrationResult item called) # steps, s2)))"

definition itemsToUpdate :: "'v PreviewItem list \<Rightarrow> 'v PreviewItem list" where
  "itemsToUpdate previewItems = filter (\<lambda>item. pi_action item = will_update) previewItems"

definition handleExecuteMigration ::
  "('v setValueArgs \<Rightarrow> 's \<Rightarrow> setValueResult outcome \<times> 's) \<Rightarrow> CustomField list \<Rightarrow>
   'v MigrationState \<Rightarrow> 's \<Rightarrow> ('v MigrationState \<times> 'v MigrationResult step list) \<times> 's" where
  "handleExecuteMigration setCustomFieldValue customFields st s =
     (case executeItems setCustomFieldValue customFields (itemsToUpdate (ms_previewItems st)) s of
        (steps, s1) \<Rightarrow>
          ((st\<lparr>ms_showConfirmModal := False, ms_isExecuting := False,
                ms_executionResults := pushed steps\<rparr>, steps), s1))"

text \<open>The \<open>results\<close> table of a call of \<open>getBatchCustomFieldValues\<close> that returned.\<close>

definition resultsOf :: "(string \<Rightarrow> 'v fieldData option) outcome \<Rightarrow> string \<Rightarrow> 'v fieldData option" where
  "resultsOf called = (case called of Returned results \<Rightarrow> results | Threw e \<Rightarrow> (\<lambda>i. None))"

section \<open>Loading and deleting duplicate notes (modules/duplicate-notes)\<close>

record Company =
  c_id :: string
  c_name :: string

record DeletionResult =
  dr_noteId :: string
  dr_title :: string
  dr_companyName :: string
  dr_success :: bool
  dr_error :: "string option"

text \<open>The component state, without the progress counters.\<close>

record NotesState =
  ns_notes :: "Note list"
  ns_companies :: "Company jsmap"
  ns_duplicateGroups :: "DuplicateGroup list"
  ns_isLoadingNotes :: bool
  ns_isDeleting :: bool
  ns_deletionResults :: "DeletionResult list"
  ns_showConfirmModal :: bool

definition companyMap :: "Company list \<Rightarrow> Company jsmap" where
  "companyMap allCompanies = foldl (\<lambda>m company. mapSet (c_id company) company m) [] allCompanies"

text \<open>
  \<open>handleLoadNotes\<close>. \<open>allNotes\<close> and \<open>allCompanies\<close> are what the two pagers
  collected, or that a page request threw.
\<close>

definition handleLoadNotes ::
  "(string \<Rightarrow> string \<Rightarrow> int) \<Rightarrow> Note list outcome \<Rightarrow> Company list outcome \<Rightarrow> NotesState \<Rightarrow> NotesState" where
  "handleLoadNotes localeCompare allNotes allCompanies st =
     (let st1 = st\<lparr>ns_isLoadingNotes := True, ns_duplicateGroups := [], ns_deletionResults := []\<rparr>
      in case allNotes of
           Threw e \<Rightarrow> st1\<lparr>ns_isLoadingNotes := False\<rparr>
         | Returned notes \<Rightarrow>
             (let st2 = st1\<lparr>ns_notes := notes\<rparr>
              in case allCompanies of
                   Threw e \<Rightarrow> st2\<lparr>ns_isLoadingNotes := False\<rparr>
                 | Returned companies \<Rightarrow>
                     st2\<lparr>ns_companies := companyMap companies,
                         ns_duplicateGroups := findDuplicateGroups localeCompare notes,
                         ns_isLoadingNotes := False\<rparr>))"

text \<open>
  \<open>note.company?.id ? companies.get(note.company.id)?.name || '' : ''\<close>
\<close>

definition companyNameOf :: "Company jsmap \<Rightarrow> Note \<Rightarrow> string" where
  "companyNameOf companies note =
     (case companyIdOf note of
        None \<Rightarrow> []
      | Some cid \<Rightarrow> (case mapGet companies cid of None \<Rightarrow> [] | Some company \<Rightarrow> c_name company))"

definition deletionResult :: "Company jsmap \<Rightarrow> Note \<Rightarrow> deleteNoteResult outcome \<Rightarrow> DeletionResult" where
  "deletionResult companies note called =
     (case called of
        Returned result \<Rightarrow>
          \<lparr>dr_noteId = n_id note, dr_title = orEmpty (n_title note),
           dr_companyName = companyNameOf companies note,
           dr_success = dn_success result, dr_error = dn_error result\<rparr>
      | Threw e \<Rightarrow>
          \<lparr>dr_noteId = n_id note, dr_title = orEmpty (n_title note),
           dr_companyName = companyNameOf companies note,
           dr_success = False, dr_error = Some (errorString e)\<rparr>)"

text \<open>
  The loop of \<open>handleDeleteDuplicates\<close>: \<open>i\<close> is the index of the first note of the
  list, \<open>n\<close> is \<open>notesToDelete.length\<close>. After the note the loop waits 1000 ms when
  \<open>(i + 1) % 50 === 0 && i + 1 < notesToDelete.length\<close>.
\<close>

fun deleteLoop ::
  "(string \<Rightarrow> 's \<Rightarrow> deleteNoteResult outcome \<times> 's) \<Rightarrow> Company jsmap \<Rightarrow> nat \<Rightarrow> nat \<Rightarrow>
   Note list \<Rightarrow> 's \<Rightarrow> DeletionResult step list \<times> 's" where
  "deleteLoop deleteNoteAction companies n i [] s = ([], s)"
| "deleteLoop deleteNoteAction companies n i (note # notes) s =
     (case deleteNoteAction (n_id note) s of
        (called, s1) \<Rightarrow>
          (case deleteLoop deleteNoteAction companies n (i + 1) notes s1 of
             (steps, s2) \<Rightarrow>
               (Pushed (deletionResult companies note called)
                  # (if (i + 1) mod 50 = 0 \<and> i + 1 < n then [Waited 1000] else []) @ steps,
                s2)))"

definition notesToDelete :: "DuplicateGroup list \<Rightarrow> Note list" where
  "notesToDelete duplicateGroups = concat (map g_deleteNotes duplicateGroups)"

definition handleDeleteDuplicates ::
  "(string \<Rightarrow> 's \<Rightarrow> deleteNoteResult outcome \<times> 's) \<Rightarrow> NotesState \<Rightarrow> 's \<Rightarrow>
   (NotesState \<times> DeletionResult step list) \<times> 's" where
  "handleDeleteDuplicates deleteNoteAction st s =
     (let toDelete = notesToDelete (ns_duplicateGroups st)
      in case deleteLoop deleteNoteAction (ns_companies st) (length toDelete) 0 toDelete s of
           (steps, s1) \<Rightarrow>
             ((st\<lparr>ns_showConfirmModal := False, ns_isDeleting := False,
                   ns_deletionResults := pushed steps\<rparr>, steps), s1))"

text \<open>
  Example data for the field copy: one feature, one mapping from field \<open>src\<close> to field
  \<open>tgt\<close>, and a remote system where every requested feature has the value 7 in every
  field.
\<close>

definition exampleFeature :: Feature where
  "exampleFeature = \<lparr>f_id = ''f1'', f_name = ''Feature 1''\<rparr>"

definition exampleMapping :: FieldMapping where
  "exampleMapping = \<lparr>fm_id = ''m1'', fm_sourceFieldId = ''src'', fm_targetFieldId = ''tgt''\<rparr>"

definition exampleBatch :: "string \<Rightarrow> string list \<Rightarrow> (string \<Rightarrow> nat fieldData option) outcome" where
  "exampleBatch customFieldId featureIds =
     Returned (\<lambda>i. if i \<in> set featureIds then Some \<lparr>fd_value = Some 7, fd_hasValue = True\<rparr> else None)"

definition exampleItem :: "action \<Rightarrow> nat PreviewItem" where
  "exampleItem a =
     \<lparr>pi_featureId = ''f1'', pi_featureName = ''Feature 1'', pi_sourceFieldId = ''src'',
      pi_sourceFieldName = [], pi_targetFieldId = ''tgt'', pi_targetFieldName = [],
      pi_sourceValue = Some 7, pi_targetValue = Some 7, pi_action = a\<rparr>"

definition exampleState :: "nat PreviewItem list \<Rightarrow> nat MigrationState" where
  "exampleState items =
     \<lparr>ms_features = [], ms_previewItems = items, ms_isLoadingPreview = False,
      ms_isExecuting = False, ms_executionResults = [], ms_showConfirmModal = False\<rparr>"

section \<open>Numbers read from text\<close>

text \<open>
  The result of \<open>parseFloat\<close>: \<open>NaN\<close>, an infinity (\<open>Infinity True\<close> is the negative
  one), or a double, held as the rational number it is equal to. Negative zero is not
  told apart from zero.
\<close>

datatype jsnumber = NaN | Infinity bool | Num rat

text \<open>
  The double of a decimal literal with digits \<open>d\<close> and exponent \<open>e\<close>, that is of
  \<open>d * 10 ^ e\<close>: the value is rounded to 53 significant bits, to the nearest double and
  to the even one of two nearest; below \<open>2 ^ - 1022\<close> the spacing stays \<open>2 ^ - 1074\<close>
  (subnormal numbers and zero), and a rounded value of \<open>2 ^ 1024\<close> or more is
  \<open>Infinity\<close>. \<open>bitLength n\<close> is the number of binary digits of \<open>n\<close>, and
  \<open>binaryExponent a b\<close> the greatest \<open>e\<close> with \<open>2 ^ e \<le> a / b\<close>.
\<close>

function bitLength :: "nat \<Rightarrow> nat" where
  "bitLength n = (if n = 0 then 0 else Suc (bitLength (n div 2)))"
  by pat_completeness auto
termination
  by (relation "measure id") auto

declare bitLength.simps [simp del]

definition binaryExponent :: "nat \<Rightarrow> nat \<Rightarrow> int" where
  "binaryExponent a b =
     (let e0 = int (bitLength a) - int (bitLength b)
      in if (if 0 \<le> e0 then b * 2 ^ nat e0 \<le> a else b \<le> a * 2 ^ nat (- e0)) then e0 else e0 - 1)"

definition roundHalfEven :: "nat \<Rightarrow> nat \<Rightarrow> nat" where
  "roundHalfEven num den =
     (let f = num div den; r = num mod den
      in if 2 * r < den then f else if den < 2 * r then f + 1 else if even f then f else f + 1)"

definition roundRatio :: "nat \<Rightarrow> nat \<Rightarrow> jsnumber" where
  "roundRatio a b =
     (if a = 0 then Num 0
      else
        (let t = max (binaryExponent a b) (- 1022) - 52
         in if 0 \<le> t
            then (let n = roundHalfEven a (b * 2 ^ nat t)
                  in if 2 ^ 1024 \<le> n * 2 ^ nat t then Infinity False else Num (of_nat (n * 2 ^ nat t)))
            else Num (of_nat (roundHalfEven (a * 2 ^ nat (- t)) b) / 2 ^ nat (- t))))"

definition decimalToDouble :: "nat \<Rightarrow> int \<Rightarrow> jsnumber" where
  "decimalToDouble d e = (if 0 \<le> e then roundRatio (d * 10 ^ nat e) 1 else roundRatio d (10 ^ nat (- e)))"

definition isDigit :: "char \<Rightarrow> bool" where
  "isDigit c = (48 \<le> (of_char c :: nat) \<and> (of_char c :: nat) \<le> 57)"

definition digitsValue :: "string \<Rightarrow> nat" where
  "digitsValue ds = foldl (\<lambda>acc c. acc * 10 + ((of_char c :: nat) - 48)) 0 ds"

text \<open>The exponent part \<open>e\<close> or \<open>E\<close>, an optional sign and at least one digit; it
  counts only when it is complete.\<close>

definition exponentOf :: "string \<Rightarrow> int" where
  "exponentOf r =
     (case r of
        [] \<Rightarrow> 0
      | c # cs \<Rightarrow>
          if c = CHR ''e'' \<or> c = CHR ''E'' then
            (case cs of
               [] \<Rightarrow> 0
             | d # ds \<Rightarrow>
                 if d = CHR ''-'' then (if takeWhile isDigit ds = [] then 0 else - int (digitsValue (takeWhile isDigit ds)))
                 else if d = CHR ''+'' then int (digitsValue (takeWhile isDigit ds))
                 else int (digitsValue (takeWhile isDigit cs)))
          else 0)"

text \<open>
  \<open>parseFloat\<close>: leading white space is skipped, then the longest prefix that is a
  decimal literal is read (a sign, \<open>Infinity\<close> or digits with an optional fraction and
  exponent); what follows is ignored, and without such a prefix the result is \<open>NaN\<close>.
  The literal with integer digits \<open>I\<close>, fraction digits \<open>F\<close> and exponent \<open>x\<close> has the
  value of the digits \<open>IF\<close> times \<open>10 ^ (x - length F)\<close>.
\<close>

definition unsignedLiteral :: "string \<Rightarrow> jsnumber" where
  "unsignedLiteral r =
     (if startsWith r ''Infinity'' then Infinity False
      else
        (let intDigits = takeWhile isDigit r;
             r1 = dropWhile isDigit r;
             hasPoint = (case r1 of [] \<Rightarrow> False | c # cs \<Rightarrow> c = CHR ''.'');
             fracDigits = (if hasPoint then takeWhile isDigit (tl r1) else []);
             r2 = (if hasPoint then dropWhile isDigit (tl r1) else r1)
         in if intDigits = [] \<and> fracDigits = [] then NaN
            else decimalToDouble (digitsValue (intDigits @ fracDigits))
                   (exponentOf r2 - int (length fracDigits))))"

definition negate :: "jsnumber \<Rightarrow> jsnumber" where
  "negate x = (case x of NaN \<Rightarrow> NaN | Infinity neg \<Rightarrow> Infinity (\<not> neg) | Num q \<Rightarrow> Num (- q))"

definition parseFloat :: "string \<Rightarrow> jsnumber" where
  "parseFloat input =
     (case trimStart input of
        [] \<Rightarrow> NaN
      | c # cs \<Rightarrow>
          if c = CHR ''-'' then negate (unsignedLiteral cs)
          else if c = CHR ''+'' then unsignedLiteral cs
          else unsignedLiteral (c # cs))"

definition isNaN :: "jsnumber \<Rightarrow> bool" where
  "isNaN x = (x = NaN)"

text \<open>
  The two lines of csv-bulk-update that clean a value and read it:
  \<open>cleanedValue = value.trim().replace(/%/g, '')\<close> and
  \<open>numericValue = parseFloat(cleanedValue)\<close>.
\<close>

definition cleanedValue :: "string \<Rightarrow> string" where
  "cleanedValue v = filter (\<lambda>c. c \<noteq> CHR ''%'') (trim v)"

definition numericValue :: "string \<Rightarrow> jsnumber" where
  "numericValue v = parseFloat (cleanedValue v)"

section \<open>Bulk update of custom fields from a file (modules/csv-bulk-update)\<close>

text \<open>A row of the file: \<open>row[column]\<close> is a string or undefined.\<close>

type_synonym CSVRow = "string \<Rightarrow> string option"

definition rowValue :: "CSVRow \<Rightarrow> string \<Rightarrow> jsval" where
  "rowValue row column = (case row column of None \<Rightarrow> Undefined | Some v \<Rightarrow> Str v)"

record ColumnMapping =
  cm_csvColumn :: string
  cm_mappedTo :: "string option"

text \<open>A value decoded from JSON, as the actions return it in \<open>value\<close>.\<close>

datatype json =
  JNull | JBool bool | JNumber jsnumber | JString string | JArray "json list"
  | JObject "(string \<times> json) list"

text \<open>
  \<open>fu_newValue\<close> and \<open>cu_value\<close> hold the number read; the code stores
  \<open>String(numericValue)\<close> in the first and the number in the second. \<open>fu_oldValue\<close> is
  what \<open>formatFieldValue\<close> returned, or \<open>null\<close>.
\<close>

record FieldUpdateDetail =
  fu_fieldId :: string
  fu_fieldName :: string
  fu_oldValue :: "json option"
  fu_newValue :: jsnumber
  fu_skipped :: bool

record customFieldUpdate =
  cu_fieldId :: string
  cu_fieldType :: string
  cu_value :: jsnumber

record UpdateResult =
  ur_rowIndex :: nat
  ur_featureId :: string
  ur_featureName :: string
  ur_success :: bool
  ur_error :: "string option"
  ur_fieldUpdates :: "FieldUpdateDetail list"
  ur_allFieldsSkipped :: "bool option"

text \<open>
  What the three actions return. \<open>gf_data\<close> is \<open>data\<close> (absent, or present with or
  without a name).
\<close>

record getFeatureResult =
  gf_success :: bool
  gf_data :: "string option option"

record 'v getValueResult =
  gv_success :: bool
  gv_hasValue :: bool
  gv_value :: "'v option"

record updateFieldsResult =
  uf_success :: bool
  uf_error :: "string option"

text \<open>
  The environment of the update: three actions of the remote system, each a call that may
  change the state \<open>'s\<close> of the remote system and returns or throws, and two texts of the
  platform that the model leaves open: the text \<open>String\<close> gives for a number and the text
  \<open>JSON.stringify\<close> gives for an object.
\<close>

record 's api =
  getFeature :: "string \<Rightarrow> 's \<Rightarrow> getFeatureResult outcome \<times> 's"
  getCustomFieldValue :: "string \<Rightarrow> string \<Rightarrow> 's \<Rightarrow> json getValueResult outcome \<times> 's"
  updateFeatureCustomFields :: "string \<Rightarrow> customFieldUpdate list \<Rightarrow> 's \<Rightarrow> updateFieldsResult outcome \<times> 's"
  numberText :: "jsnumber \<Rightarrow> string"
  stringify :: "json \<Rightarrow> string"

text \<open>
  \<open>v.name\<close> and \<open>v.label\<close>: reading a property of \<open>null\<close> throws a \<open>TypeError\<close>; an
  object gives the value of the key, of its last occurrence, or undefined; arrays,
  strings, numbers and booleans have neither property.
\<close>

definition property :: "json \<Rightarrow> string \<Rightarrow> json option outcome" where
  "property v key =
     (case v of
        JNull \<Rightarrow>
          Threw (ErrorObject ''TypeError''
                   (''Cannot read properties of null (reading '' @ [CHR 0x27] @ key @ [CHR 0x27] @ '')''))
      | JObject members \<Rightarrow> Returned (map_of (rev members) key)
      | _ \<Rightarrow> Returned None)"

text \<open>Whether a value counts as true in a condition.\<close>

fun truthy :: "json \<Rightarrow> bool" where
  "truthy JNull = False"
| "truthy (JBool b) = b"
| "truthy (JNumber n) = (n \<noteq> NaN \<and> n \<noteq> Num 0)"
| "truthy (JString s) = (s \<noteq> [])"
| "truthy (JArray vs) = True"
| "truthy (JObject members) = True"

definition truthyOf :: "json option \<Rightarrow> json option" where
  "truthyOf v = (case v of None \<Rightarrow> None | Some x \<Rightarrow> if truthy x then Some x else None)"

text \<open>\<open>v.name || v.label\<close>, when it counts as true.\<close>

definition nameOrLabel :: "json \<Rightarrow> json option outcome" where
  "nameOrLabel v =
     (case property v ''name'' of
        Threw e \<Rightarrow> Threw e
      | Returned name \<Rightarrow>
          (case truthyOf name of
             Some x \<Rightarrow> Returned (Some x)
           | None \<Rightarrow>
               (case property v ''label'' of
                  Threw e \<Rightarrow> Threw e
                | Returned label \<Rightarrow> Returned (truthyOf label))))"

text \<open>\<open>texts.join(sep)\<close>\<close>

fun joinTexts :: "string \<Rightarrow> string list \<Rightarrow> string" where
  "joinTexts sep [] = []"
| "joinTexts sep [t] = t"
| "joinTexts sep (t # u # ts) = t @ sep @ joinTexts sep (u # ts)"

text \<open>
  \<open>String(v)\<close>, given the text of a number: an array is the texts of its elements joined
  by commas, with nothing for \<open>null\<close>.
\<close>

fun textOf :: "(jsnumber \<Rightarrow> string) \<Rightarrow> json \<Rightarrow> string" where
  "textOf numText JNull = ''null''"
| "textOf numText (JBool b) = (if b then ''true'' else ''false'')"
| "textOf numText (JNumber n) = numText n"
| "textOf numText (JString s) = s"
| "textOf numText (JArray vs) =
     joinTexts '','' (map (\<lambda>v. if v = JNull then [] else textOf numText v) vs)"
| "textOf numText (JObject members) = ''[object Object]''"

text \<open>
  \<open>value.map(v => v.name || v.label || String(v))\<close>, each element as \<open>join\<close> prints it.
  The callback throws on an element that is \<open>null\<close>.
\<close>

fun elementTexts :: "(jsnumber \<Rightarrow> string) \<Rightarrow> json list \<Rightarrow> string list outcome" where
  "elementTexts numText [] = Returned []"
| "elementTexts numText (v # vs) =
     (case nameOrLabel v of
        Threw e \<Rightarrow> Threw e
      | Returned chosen \<Rightarrow>
          (case elementTexts numText vs of
             Threw e \<Rightarrow> Threw e
           | Returned texts \<Rightarrow>
               Returned ((case chosen of None \<Rightarrow> textOf numText v | Some x \<Rightarrow> textOf numText x)
                         # texts)))"

text \<open>\<open>typeof value === 'object'\<close>, for a value that is not \<open>null\<close>.\<close>

definition isObject :: "json \<Rightarrow> bool" where
  "isObject v = (case v of JArray vs \<Rightarrow> True | JObject members \<Rightarrow> True | _ \<Rightarrow> False)"

text \<open>
  \<open>formatFieldValue\<close>, the display form of a fetched value; \<open>None\<close> is \<open>undefined\<close>. It
  returns the name or the label of an object as it finds it, and a string otherwise.
\<close>

definition formatFieldValue :: "'s api \<Rightarrow> json option \<Rightarrow> json outcome" where
  "formatFieldValue remote value =
     (case value of
        None \<Rightarrow> Returned (JString [])
      | Some v \<Rightarrow>
          if v = JNull then Returned (JString [])
          else if isObject v then
            (case nameOrLabel v of
               Threw e \<Rightarrow> Threw e
             | Returned (Some x) \<Rightarrow> Returned x
             | Returned None \<Rightarrow>
                 (case v of
                    JArray vs \<Rightarrow>
                      (case elementTexts (numberText remote) vs of
                         Threw e \<Rightarrow> Threw e
                       | Returned texts \<Rightarrow> Returned (JString (joinTexts '', '' texts)))
                  | _ \<Rightarrow> Returned (JString (stringify remote v))))
          else Returned (JString (textOf (numberText remote) v)))"

definition getValueColumns :: "ColumnMapping list \<Rightarrow> string \<Rightarrow> ColumnMapping list" where
  "getValueColumns columnMappings uuidColumn =
     filter (\<lambda>m. (case cm_mappedTo m of None \<Rightarrow> False | Some t \<Rightarrow> t \<noteq> []) \<and> cm_csvColumn m \<noteq> uuidColumn)
       columnMappings"

text \<open>\<open>row[uuidColumn]?.trim()\<close>\<close>

definition featureIdOf :: "CSVRow \<Rightarrow> string \<Rightarrow> jsval" where
  "featureIdOf row uuidColumn = (case row uuidColumn of None \<Rightarrow> Undefined | Some v \<Rightarrow> Str (trim v))"

definition hasValueToUpdate :: "ColumnMapping list \<Rightarrow> CSVRow \<Rightarrow> bool" where
  "hasValueToUpdate valueColumns row =
     list_ex (\<lambda>mapping. \<not> isBlankValue (rowValue row (cm_csvColumn mapping))) valueColumns"

text \<open>The rows with a feature id and at least one non-blank value, with their indices.\<close>

definition rowsToProcess :: "CSVRow list \<Rightarrow> string \<Rightarrow> ColumnMapping list \<Rightarrow> (nat \<times> CSVRow) list" where
  "rowsToProcess rows uuidColumn valueColumns =
     filter (\<lambda>(rowIndex, row). \<not> isBlankValue (featureIdOf row uuidColumn) \<and> hasValueToUpdate valueColumns row)
       (zip [0..<length rows] rows)"

text \<open>
  The check of the current value, made when \<open>preserveExistingValues\<close> is set: it gives
  \<open>oldValue\<close> and \<open>shouldSkip\<close>. A throw of the action or of \<open>formatFieldValue\<close> is
  caught and leaves both as they were.
\<close>

definition checkExisting ::
  "'s api \<Rightarrow> bool \<Rightarrow> string \<Rightarrow> string \<Rightarrow> 's \<Rightarrow> (json option \<times> bool) \<times> 's" where
  "checkExisting remote preserveExistingValues fieldId featureId s =
     (if preserveExistingValues then
        (case getCustomFieldValue remote fieldId featureId s of
           (Threw e, s1) \<Rightarrow> ((None, False), s1)
         | (Returned currentValueResult, s1) \<Rightarrow>
             if gv_success currentValueResult \<and> gv_hasValue currentValueResult then
               (case formatFieldValue remote (gv_value currentValueResult) of
                  Threw e \<Rightarrow> ((None, False), s1)
                | Returned oldValue \<Rightarrow> ((Some oldValue, True), s1))
             else ((None, False), s1))
      else ((None, False), s))"

text \<open>The loop over the value columns of one row; the two arrays are threaded through.\<close>

fun fieldsLoop ::
  "'s api \<Rightarrow> CustomField list \<Rightarrow> bool \<Rightarrow> string \<Rightarrow> CSVRow \<Rightarrow> ColumnMapping list \<Rightarrow>
   FieldUpdateDetail list \<times> customFieldUpdate list \<Rightarrow> 's \<Rightarrow>
   (FieldUpdateDetail list \<times> customFieldUpdate list) \<times> 's" where
  "fieldsLoop remote customFields preserveExistingValues featureId row [] acc s = (acc, s)"
| "fieldsLoop remote customFields preserveExistingValues featureId row (mapping # mappings)
     (fieldUpdates, customFieldUpdates) s =
     (case (case cm_mappedTo mapping of None \<Rightarrow> None | Some t \<Rightarrow> findField customFields t) of
        None \<Rightarrow>
          fieldsLoop remote customFields preserveExistingValues featureId row mappings
            (fieldUpdates, customFieldUpdates) s
      | Some field \<Rightarrow>
          (case rowValue row (cm_csvColumn mapping) of
             Str csvValue \<Rightarrow>
               if \<not> isBlankValue (Str csvValue) \<and> \<not> isNaN (numericValue csvValue) then
                 (case checkExisting remote preserveExistingValues (cf_id field) featureId s of
                    ((oldValue, shouldSkip), s1) \<Rightarrow>
                      fieldsLoop remote customFields preserveExistingValues featureId row mappings
                        (fieldUpdates @
                           [\<lparr>fu_fieldId = cf_id field, fu_fieldName = cf_name field,
                             fu_oldValue = oldValue, fu_newValue = numericValue csvValue,
                             fu_skipped = shouldSkip\<rparr>],
                         if shouldSkip then customFieldUpdates
                         else customFieldUpdates @
                           [\<lparr>cu_fieldId = cf_id field, cu_fieldType = cf_type field,
                             cu_value = numericValue csvValue\<rparr>]) s1)
               else fieldsLoop remote customFields preserveExistingValues featureId row mappings
                      (fieldUpdates, customFieldUpdates) s
           | _ \<Rightarrow>
               fieldsLoop remote customFields preserveExistingValues featureId row mappings
                 (fieldUpdates, customFieldUpdates) s))"

text \<open>\<open>featureName\<close>: the name fetched by \<open>getFeature\<close>, or the id.\<close>

definition featureNameOf :: "string \<Rightarrow> getFeatureResult outcome \<Rightarrow> string" where
  "featureNameOf featureId called =
     (case called of
        Threw e \<Rightarrow> featureId
      | Returned featureResult \<Rightarrow>
          if gf_success featureResult then
            (case gf_data featureResult of
               None \<Rightarrow> featureId
             | Some None \<Rightarrow> featureId
             | Some (Some n) \<Rightarrow> if n = [] then featureId else n)
          else featureId)"

definition rateLimitDelay :: "nat \<Rightarrow> nat \<Rightarrow> nat \<Rightarrow> nat \<Rightarrow> 'r step list" where
  "rateLimitDelay every ms i n = (if (i + 1) mod every = 0 \<and> i + 1 < n then [Waited ms] else [])"

text \<open>The result pushed for a row whose update was sent.\<close>

definition updateResult ::
  "nat \<Rightarrow> string \<Rightarrow> string \<Rightarrow> FieldUpdateDetail list \<Rightarrow> updateFieldsResult outcome \<Rightarrow> UpdateResult" where
  "updateResult rowIndex featureId featureName fieldUpdates called =
     (case called of
        Returned result \<Rightarrow>
          \<lparr>ur_rowIndex = rowIndex, ur_featureId = featureId, ur_featureName = featureName,
           ur_success = uf_success result, ur_error = uf_error result,
           ur_fieldUpdates = fieldUpdates, ur_allFieldsSkipped = Some False\<rparr>
      | Threw e \<Rightarrow>
          \<lparr>ur_rowIndex = rowIndex, ur_featureId = featureId, ur_featureName = featureName,
           ur_success = False, ur_error = Some (errorString e),
           ur_fieldUpdates = fieldUpdates, ur_allFieldsSkipped = Some False\<rparr>)"

text \<open>
  One pass of the loop of \<open>handleStartUpdate\<close>, for the row at index \<open>i\<close> of the \<open>n\<close>
  rows to process. A row left without any field update takes the \<open>continue\<close>: it
  pushes nothing and skips the delay.
\<close>

definition processRow ::
  "'s api \<Rightarrow> CustomField list \<Rightarrow> bool \<Rightarrow> string \<Rightarrow> ColumnMapping list \<Rightarrow> nat \<Rightarrow> nat \<Rightarrow>
   nat \<times> CSVRow \<Rightarrow> 's \<Rightarrow> UpdateResult step list \<times> 's" where
  "processRow remote customFields preserveExistingValues uuidColumn valueColumns n i entry s =
     (case entry of (rowIndex, row) \<Rightarrow>
        (let featureId = trim (orEmpty (row uuidColumn)) in
         case getFeature remote featureId s of
           (featureCalled, s1) \<Rightarrow>
             (let featureName = featureNameOf featureId featureCalled in
              case fieldsLoop remote customFields preserveExistingValues featureId row valueColumns
                     ([], []) s1 of
                ((fieldUpdates, customFieldUpdates), s2) \<Rightarrow>
                  if length fieldUpdates > 0 \<and> length customFieldUpdates = 0 then
                    (Pushed \<lparr>ur_rowIndex = rowIndex, ur_featureId = featureId,
                             ur_featureName = featureName, ur_success = True, ur_error = None,
                             ur_fieldUpdates = fieldUpdates, ur_allFieldsSkipped = Some True\<rparr>
                       # rateLimitDelay 10 200 i n, s2)
                  else if length customFieldUpdates = 0 then ([], s2)
                  else
                    (case updateFeatureCustomFields remote featureId customFieldUpdates s2 of
                       (called, s3) \<Rightarrow>
                         (Pushed (updateResult rowIndex featureId featureName fieldUpdates called)
                            # rateLimitDelay 10 200 i n, s3)))))"

fun updateLoop ::
  "'s api \<Rightarrow> CustomField list \<Rightarrow> bool \<Rightarrow> string \<Rightarrow> ColumnMapping list \<Rightarrow> nat \<Rightarrow> nat \<Rightarrow>
   (nat \<times> CSVRow) list \<Rightarrow> 's \<Rightarrow> UpdateResult step list \<times> 's" where
  "updateLoop remote customFields preserveExistingValues uuidColumn valueColumns n i [] s = ([], s)"
| "updateLoop remote customFields preserveExistingValues uuidColumn valueColumns n i (entry # entries) s =
     (case processRow remote customFields preserveExistingValues uuidColumn valueColumns n i entry s of
        (steps, s1) \<Rightarrow>
          (case updateLoop remote customFields preserveExistingValues uuidColumn valueColumns n (i + 1)
                  entries s1 of
             (steps', s2) \<Rightarrow> (steps @ steps', s2)))"

text \<open>
  \<open>handleStartUpdate\<close>: it returns at once without file or without UUID column;
  otherwise it runs the loop over the rows to process. The result is what the run did in
  time order; \<open>pushed\<close> of it is the array given to \<open>setUpdateResults\<close>.
\<close>

definition handleStartUpdate ::
  "'s api \<Rightarrow> CustomField list \<Rightarrow> bool \<Rightarrow> CSVRow list option \<Rightarrow> string \<Rightarrow>
   ColumnMapping list \<Rightarrow> 's \<Rightarrow> UpdateResult step list \<times> 's" where
  "handleStartUpdate remote customFields preserveExistingValues csvData uuidColumn columnMappings s =
     (case csvData of
        None \<Rightarrow> ([], s)
      | Some rows \<Rightarrow>
          if uuidColumn = [] then ([], s)
          else
            (let valueColumns = getValueColumns columnMappings uuidColumn;
                 toProcess = rowsToProcess rows uuidColumn valueColumns
             in updateLoop remote customFields preserveExistingValues uuidColumn valueColumns
                  (length toProcess) 0 toProcess s))"

section \<open>Setting the fields of an imported company (modules/csv-company-import)\<close>

record CompanyFieldConfig =
  fc_id :: string
  fc_name :: string
  fc_type :: string

record setFieldResult =
  sf_success :: bool
  sf_error :: "string option"

text \<open>\<open>processedValue\<close>: the text of the file, or the number read from it.\<close>

datatype processedValue = TextValue string | NumberValue jsnumber

text \<open>
  The loop of \<open>handleStartImport\<close> over \<open>Object.entries(company.customFields)\<close>, with
  the \<open>fieldErrors\<close> collected so far. The call of \<open>setCompanyFieldValue\<close> is not in
  a \<open>try\<close>: when it throws, the handler is left.
\<close>

fun setFieldsLoop ::
  "(string \<Rightarrow> string \<Rightarrow> string \<Rightarrow> processedValue \<Rightarrow> 's \<Rightarrow> setFieldResult outcome \<times> 's) \<Rightarrow>
   CompanyFieldConfig list \<Rightarrow> string \<Rightarrow> (string \<times> jsval) list \<Rightarrow> string list \<Rightarrow> 's \<Rightarrow>
   string list outcome \<times> 's" where
  "setFieldsLoop setCompanyFieldValue companyFields companyId [] fieldErrors s = (Returned fieldErrors, s)"
| "setFieldsLoop setCompanyFieldValue companyFields companyId ((fieldId, entryValue) # entries) fieldErrors s =
     (case entryValue of
        Str v \<Rightarrow>
          if v = [] then setFieldsLoop setCompanyFieldValue companyFields companyId entries fieldErrors s
          else
            (let fieldConfig = find (\<lambda>f. fc_id f = fieldId) companyFields;
                 isNumber = (case fieldConfig of None \<Rightarrow> False | Some f \<Rightarrow> fc_type f = ''number'');
                 fieldType = (case fieldConfig of None \<Rightarrow> ''text''
                              | Some f \<Rightarrow> if fc_type f = [] then ''text'' else fc_type f);
                 fieldName = (case fieldConfig of None \<Rightarrow> fieldId
                              | Some f \<Rightarrow> if fc_name f = [] then fieldId else fc_name f)
             in if isNumber \<and> isNaN (parseFloat v) then
                  setFieldsLoop setCompanyFieldValue companyFields companyId entries
                    (fieldErrors @
                       [''Invalid number value for ''
                          @ (case fieldConfig of None \<Rightarrow> [] | Some f \<Rightarrow> fc_name f) @ '': '' @ v]) s
                else
                  (case setCompanyFieldValue companyId fieldId fieldType
                          (if isNumber then NumberValue (parseFloat v) else TextValue v) s of
                     (Threw e, s1) \<Rightarrow> (Threw e, s1)
                   | (Returned setResult, s1) \<Rightarrow>
                       setFieldsLoop setCompanyFieldValue companyFields companyId entries
                         (if sf_success setResult then fieldErrors
                          else fieldErrors @ [fieldName @ '': '' @ showPart (sf_error setResult)]) s1))
      | _ \<Rightarrow> setFieldsLoop setCompanyFieldValue companyFields companyId entries fieldErrors s)"

section \<open>Notions used to state the properties\<close>

text \<open>Whether a call of a sink succeeded: it returned, with \<open>success: true\<close>.\<close>

definition setValueSucceeded :: "setValueResult outcome \<Rightarrow> bool" where
  "setValueSucceeded called = (case called of Threw e \<Rightarrow> False | Returned result \<Rightarrow> sv_success result)"

definition updateSucceeded :: "updateFieldsResult outcome \<Rightarrow> bool" where
  "updateSucceeded called = (case called of Threw e \<Rightarrow> False | Returned result \<Rightarrow> uf_success result)"

text \<open>Whether the check of the current value found one: the action returned with
  \<open>success\<close> and \<open>hasValue\<close>.\<close>

definition reportsValue :: "'v getValueResult outcome \<Rightarrow> bool" where
  "reportsValue called =
     (case called of Threw e \<Rightarrow> False | Returned result \<Rightarrow> gv_success result \<and> gv_hasValue result)"

text \<open>What the sink of the migration answers to each item in turn.\<close>

fun sinkCalls ::
  "('v setValueArgs \<Rightarrow> 's \<Rightarrow> setValueResult outcome \<times> 's) \<Rightarrow> CustomField list \<Rightarrow>
   'v PreviewItem list \<Rightarrow> 's \<Rightarrow> setValueResult outcome list" where
  "sinkCalls setCustomFieldValue customFields [] s = []"
| "sinkCalls setCustomFieldValue customFields (item # items) s =
     (case setCustomFieldValue (setValueArgsOf customFields item) s of
        (called, s1) \<Rightarrow> called # sinkCalls setCustomFieldValue customFields items s1)"

text \<open>The shape of a run: where it pushed a result (\<open>None\<close>) and where it waited, and
  for how long.\<close>

definition shape :: "'r step list \<Rightarrow> nat option list" where
  "shape steps = map (\<lambda>s. case s of Pushed r \<Rightarrow> None | Waited ms \<Rightarrow> Some ms) steps"

text \<open>Whether a row has a mapped value that leads to a field update: its field is
  found, and the value is not blank and reads as a number.\<close>

definition givesFieldUpdate :: "CustomField list \<Rightarrow> CSVRow \<Rightarrow> ColumnMapping \<Rightarrow> bool" where
  "givesFieldUpdate customFields row mapping =
     (case cm_mappedTo mapping of
        None \<Rightarrow> False
      | Some t \<Rightarrow>
          (case findField customFields t of
             None \<Rightarrow> False
           | Some field \<Rightarrow>
               (case row (cm_csvColumn mapping) of
                  None \<Rightarrow> False
                | Some v \<Rightarrow> \<not> isBlankValue (Str v) \<and> \<not> isNaN (numericValue v))))"

text \<open>
  What the write of the bulk update answers to each row in turn; \<open>None\<close> for a row for
  which the write is not called.
\<close>

fun writeCalls ::
  "'s api \<Rightarrow> CustomField list \<Rightarrow> bool \<Rightarrow> string \<Rightarrow> ColumnMapping list \<Rightarrow> (nat \<times> CSVRow) list \<Rightarrow>
   's \<Rightarrow> updateFieldsResult outcome option list" where
  "writeCalls remote customFields preserveExistingValues uuidColumn valueColumns [] s = []"
| "writeCalls remote customFields preserveExistingValues uuidColumn valueColumns (entry # entries) s =
     (let featureId = trim (orEmpty (snd entry uuidColumn)) in
      case getFeature remote featureId s of
        (featureCalled, s1) \<Rightarrow>
          (case fieldsLoop remote customFields preserveExistingValues featureId (snd entry)
                  valueColumns ([], []) s1 of
             ((fieldUpdates, customFieldUpdates), s2) \<Rightarrow>
               if customFieldUpdates = [] then
                 None # writeCalls remote customFields preserveExistingValues uuidColumn valueColumns
                          entries s2
               else
                 (case updateFeatureCustomFields remote featureId customFieldUpdates s2 of
                    (called, s3) \<Rightarrow>
                      Some called # writeCalls remote customFields preserveExistingValues uuidColumn
                                      valueColumns entries s3)))"

text \<open>
  What the results must record for a row, given what the write answered to it: the index
  of the row, the feature, \<open>success\<close> and \<open>error\<close>. A row whose write was not called has
  a successful result when it has a field update (all of them were skipped), and no
  result otherwise.
\<close>

definition recorded ::
  "CustomField list \<Rightarrow> ColumnMapping list \<Rightarrow> string \<Rightarrow> nat \<times> CSVRow \<Rightarrow>
   updateFieldsResult outcome option \<Rightarrow> (nat \<times> string \<times> bool \<times> string option) list" where
  "recorded customFields valueColumns uuidColumn entry answer =
     (case answer of
        Some called \<Rightarrow>
          [(fst entry, trim (orEmpty (snd entry uuidColumn)), updateSucceeded called,
            (case called of Threw e \<Rightarrow> Some (errorString e) | Returned result \<Rightarrow> uf_error result))]
      | None \<Rightarrow>
          if list_ex (givesFieldUpdate customFields (snd entry)) valueColumns
          then [(fst entry, trim (orEmpty (snd entry uuidColumn)), True, None)] else [])"

text \<open>
  Example data for the executors. The remote system of the examples counts the writes it
  has received; write number \<open>failAt\<close> fails and every other write succeeds. Field
  \<open>F1\<close> has the value 3 and every other field is empty. The text of a number is given
  for the natural numbers, the only numbers that the examples print, and no example
  prints an object.
\<close>

definition exampleFields :: "CustomField list" where
  "exampleFields =
     [\<lparr>cf_id = ''F1'', cf_name = ''Score'', cf_type = ''number''\<rparr>,
      \<lparr>cf_id = ''F2'', cf_name = ''Weight'', cf_type = ''number''\<rparr>]"

definition exampleColumns :: "ColumnMapping list" where
  "exampleColumns =
     [\<lparr>cm_csvColumn = ''id'', cm_mappedTo = None\<rparr>,
      \<lparr>cm_csvColumn = ''a'', cm_mappedTo = Some ''F1''\<rparr>,
      \<lparr>cm_csvColumn = ''b'', cm_mappedTo = Some ''F2''\<rparr>]"

definition exampleRow :: "string \<Rightarrow> string \<Rightarrow> CSVRow" where
  "exampleRow a b = map_of [(''id'', ''u1''), (''a'', a), (''b'', b)]"

definition naturalText :: "jsnumber \<Rightarrow> string" where
  "naturalText n = (case n of Num q \<Rightarrow> numberToString (nat \<lfloor>q\<rfloor>) | _ \<Rightarrow> [])"

definition exampleRemote :: "nat \<Rightarrow> nat api" where
  "exampleRemote failAt =
     \<lparr>getFeature = (\<lambda>featureId s. (Returned \<lparr>gf_success = True, gf_data = Some (Some ''Feature'')\<rparr>, s)),
      getCustomFieldValue = (\<lambda>fieldId featureId s.
        (Returned (if fieldId = ''F1''
                   then \<lparr>gv_success = True, gv_hasValue = True, gv_value = Some (JNumber (Num 3))\<rparr>
                   else \<lparr>gv_success = True, gv_hasValue = False, gv_value = Some JNull\<rparr>), s)),
      updateFeatureCustomFields = (\<lambda>featureId updates s.
        (Returned (if s + 1 = failAt
                   then \<lparr>uf_success = False, uf_error = Some ''Field update failed: Invalid data format''\<rparr>
                   else \<lparr>uf_success = True, uf_error = None\<rparr>), s + 1)),
      numberText = naturalText,
      stringify = (\<lambda>v. [])\<rparr>"


definition failingSink :: "nat \<Rightarrow> nat setValueArgs \<Rightarrow> nat \<Rightarrow> setValueResult outcome \<times> nat" where
  "failingSink failAt args s =
     (Returned (if s + 1 = failAt
                then \<lparr>sv_success = False, sv_response = None, sv_error = Some ''Invalid data format''\<rparr>
                else \<lparr>sv_success = True, sv_response = Some ''ok'', sv_error = None\<rparr>), s + 1)"

text \<open>Ten items to update, for the features \<open>f1\<close> to \<open>f10\<close>, and ten rows of a
  file, for the features \<open>u1\<close> to \<open>u10\<close>.\<close>

definition tenItems :: "nat PreviewItem list" where
  "tenItems =
     map (\<lambda>k. (exampleItem will_update)\<lparr>pi_featureId := ''f'' @ numberToString k\<rparr>) [1..<11]"

definition tenRows :: "CSVRow list" where
  "tenRows = map (\<lambda>k. map_of [(''id'', ''u'' @ numberToString k), (''a'', ''1''), (''b'', ''2'')]) [1..<11]"

definition deletedSink :: "string \<Rightarrow> nat \<Rightarrow> deleteNoteResult outcome \<times> nat" where
  "deletedSink noteId s = (Returned \<lparr>dn_success = True, dn_error = None, dn_status = Some 204\<rparr>, s + 1)"

definition exampleCompanyFields :: "CompanyFieldConfig list" where
  "exampleCompanyFields = [\<lparr>fc_id = ''F1'', fc_name = ''Score'', fc_type = ''number''\<rparr>]"

definition exampleCompanySink ::
  "string \<Rightarrow> string \<Rightarrow> string \<Rightarrow> processedValue \<Rightarrow> nat \<Rightarrow> setFieldResult outcome \<times> nat" where
  "exampleCompanySink companyId fieldId fieldType v s =
     (Returned \<lparr>sf_success = True, sf_error = None\<rparr>, s + 1)"

text \<open>Twelve notes with the same content, title and company, created on the days 10 to
  21 of a month, and the page before anything is loaded.\<close>

definition twelveNotes :: "Note list" where
  "twelveNotes =
     map (\<lambda>k. \<lparr>n_id = ''n'' @ numberToString k, n_title = Some ''t'', n_content = Some ''x'',
                n_company = Some ''C1'', n_createdAt = Some (''2020-01-'' @ numberToString k)\<rparr>)
       [10..<22]"

definition emptyNotesState :: NotesState where
  "emptyNotesState =
     \<lparr>ns_notes = [], ns_companies = [], ns_duplicateGroups = [], ns_isLoadingNotes = False,
      ns_isDeleting = False, ns_deletionResults = [], ns_showConfirmModal = False\<rparr>"

section \<open>Properties\<close>

subsection \<open>Blank detection\<close>

text \<open>
  Claim C5. \<open>isBlankValue v\<close> is true exactly when \<open>v\<close> is null, undefined, or a string
  whose trimmed value is the empty string, \<open>-\<close> or \<open>'-\<close>; so it is true for the empty
  string, three spaces, \<open>-\<close>, \<open>'-\<close>, null and undefined, and false for \<open>0\<close>, \<open>-1\<close>
  and \<open>N/A\<close>.
\<close>

theorem isBlankValue_spec:
  \<open>(isBlankValue v \<longleftrightarrow>
      v = Null \<or> v = Undefined
      \<or> (\<exists>s. v = Str s \<and> (trim s = '''' \<or> trim s = ''-'' \<or> trim s = '''-'')))
   \<and> isBlankValue (Str '''') \<and> isBlankValue (Str ''   '') \<and> isBlankValue (Str ''-'')
   \<and> isBlankValue (Str '''-'') \<and> isBlankValue Null \<and> isBlankValue Undefined
   \<and> \<not> isBlankValue (Str ''0'') \<and> \<not> isBlankValue (Str ''-1'') \<and> \<not> isBlankValue (Str ''N/A'')\<close>
proof -
  have "isBlankValue v \<longleftrightarrow>
      v = Null \<or> v = Undefined
      \<or> (\<exists>s. v = Str s \<and> (trim s = [] \<or> trim s = ''-'' \<or> trim s = [CHR 0x27, CHR ''-'']))"
    by (cases v) (simp_all add: Let_def)
  then show ?thesis by (simp add: trim_def isWhiteSpace_def)
qed

subsection \<open>CSV escaping and parsing\<close>

lemma parseCSVLoop_quoted_char:
  "c \<noteq> dquote \<Longrightarrow> parseCSVLoop res cur True (c # xs) = parseCSVLoop res (cur @ [c]) True xs"
  by (cases xs) simp_all

text \<open>Inside quotes, the doubled body followed by the closing quote appends the body.\<close>

lemma parseCSVLoop_quoted_body:
  "parseCSVLoop res cur True (doubleQuotes s @ [dquote]) = res @ [trim (cur @ s)]"
proof (induction s arbitrary: cur)
  case Nil
  show ?case by simp
next
  case (Cons c s)
  show ?case
  proof (cases "c = dquote")
    case True
    then show ?thesis using Cons.IH [of "cur @ [dquote]"] by simp
  next
    case False
    then show ?thesis using Cons.IH [of "cur @ [c]"] by (simp add: parseCSVLoop_quoted_char)
  qed
qed

lemma trim_no_outer_space:
  assumes "s \<noteq> []" "\<not> isWhiteSpace (hd s)" "\<not> isWhiteSpace (last s)"
  shows "trim s = s"
proof -
  from assms have a: "dropWhile isWhiteSpace s = s" by (cases s) simp_all
  from assms have "rev s \<noteq> []" "\<not> isWhiteSpace (hd (rev s))" by (simp_all add: hd_rev)
  then have b: "dropWhile isWhiteSpace (rev s) = rev s" by (cases "rev s") simp_all
  show ?thesis by (simp add: trim_def a b)
qed

text \<open>
  Claim C8, as stated, fails: \<open>parseCSVLine\<close> trims every field it returns, so a value
  with white space at either end does not come back. The two-character value made of a
  space and a comma is escaped to that value in quotes and parsed back to the comma alone.
\<close>

theorem escapeCSV_parseCSVLine_counterexample:
  \<open>CHR '','' \<in> set '' ,'' \<and> parseCSVLine (escapeCSV '' ,'') \<noteq> ['' ,'']\<close>
  by (simp add: escapeCSV_def dquote_def parseCSVLine_def trim_def isWhiteSpace_def)

text \<open>
  Claim C8, amended. For every string containing a comma, a double quote or a newline,
  \<open>escapeCSV\<close> wraps it in double quotes and doubles each embedded quote, and
  \<open>parseCSVLine\<close> decodes the escaped field to a single field (embedded commas do not
  split it) that is the original string trimmed: the original string itself when it
  neither starts nor ends with white space. The value \<open>He said, "hi"\<close> escapes to
  \<open>"He said, ""hi"""\<close>, which decodes back to it.
\<close>

theorem escapeCSV_parseCSVLine_roundtrip:
  \<open>(CHR '','' \<in> set s \<or> dquote \<in> set s \<or> CHR 0x0A \<in> set s \<longrightarrow>
      escapeCSV s = dquote # doubleQuotes s @ [dquote]
      \<and> parseCSVLine (escapeCSV s) = [trim s]
      \<and> (\<not> isWhiteSpace (hd s) \<and> \<not> isWhiteSpace (last s) \<longrightarrow> parseCSVLine (escapeCSV s) = [s]))
   \<and> escapeCSV ''He said, "hi"'' = ''"He said, ""hi"""''
   \<and> parseCSVLine ''"He said, ""hi"""'' = [''He said, "hi"'']\<close>
proof (intro conjI impI)
  assume h: \<open>CHR '','' \<in> set s \<or> dquote \<in> set s \<or> CHR 0x0A \<in> set s\<close>
  then show e: "escapeCSV s = dquote # doubleQuotes s @ [dquote]"
    by (simp add: escapeCSV_def)
  show p: "parseCSVLine (escapeCSV s) = [trim s]"
    using parseCSVLoop_quoted_body [of "[]" "[]" s] by (simp add: e parseCSVLine_def)
  assume "\<not> isWhiteSpace (hd s) \<and> \<not> isWhiteSpace (last s)"
  moreover from h have "s \<noteq> []" by auto
  ultimately show "parseCSVLine (escapeCSV s) = [s]"
    by (simp add: p trim_no_outer_space)
next
  show \<open>escapeCSV ''He said, "hi"'' = ''"He said, ""hi"""''\<close>
    by (simp add: escapeCSV_def dquote_def)
  show \<open>parseCSVLine ''"He said, ""hi"""'' = [''He said, "hi"'']\<close>
    by (simp add: parseCSVLine_def dquote_def trim_def isWhiteSpace_def)
qed

theorem escapeCSV_parseCSVLine_roundtrip_witness:
  \<open>CHR '','' \<in> set ''a,b'' \<and> \<not> isWhiteSpace (hd ''a,b'') \<and> \<not> isWhiteSpace (last ''a,b'')
   \<and> escapeCSV ''a,b'' = ''"a,b"'' \<and> parseCSVLine (escapeCSV ''a,b'') = [''a,b'']\<close>
proof -
  have h: \<open>CHR '','' \<in> set ''a,b'' \<or> dquote \<in> set ''a,b'' \<or> CHR 0x0A \<in> set ''a,b''\<close> by simp
  have w: \<open>\<not> isWhiteSpace (hd ''a,b'') \<and> \<not> isWhiteSpace (last ''a,b'')\<close>
    by (simp add: isWhiteSpace_def)
  from escapeCSV_parseCSVLine_roundtrip [of "''a,b''"] h w
  have \<open>escapeCSV ''a,b'' = dquote # doubleQuotes ''a,b'' @ [dquote]\<close>
    and \<open>parseCSVLine (escapeCSV ''a,b'') = [''a,b'']\<close> by blast+
  with w show ?thesis by (simp add: dquote_def)
qed

subsection \<open>Note deletion\<close>

text \<open>
  Claim C10, as stated, fails in its last part: a status other than 204 and 404 is a
  failure also when it is a 2xx status. A 200 response gives \<open>success: false\<close> with the
  message \<open>Request failed (200)\<close>.
\<close>

theorem deleteNote_status_200_counterexample:
  "\<not> dn_success (deleteNote (Returned \<lparr>status = 200, body = Returned []\<rparr>))
   \<and> dn_error (deleteNote (Returned \<lparr>status = 200, body = Returned []\<rparr>)) = Some ''Request failed (200)''"
  by (simp add: deleteNote_def sanitizeApiError_def SAFE_ERROR_MAP_def numberToString.simps)

text \<open>
  Claim C10, amended. For every call of \<open>deleteNote\<close>, a 404 response is reported as
  success exactly like a 204 (\<open>success: true\<close>, no error, the status passed on); every
  other status, and a call that throws, yields \<open>success: false\<close>, and the result
  carries an error message exactly when it is not a success.
\<close>

theorem deleteNote_success_iff:
  "dn_success (deleteNote fetched) =
     (case fetched of Threw e \<Rightarrow> False | Returned r \<Rightarrow> status r = 204 \<or> status r = 404)
   \<and> (dn_error (deleteNote fetched) = None) = dn_success (deleteNote fetched)
   \<and> deleteNote (Returned \<lparr>status = 204, body = b\<rparr>) = \<lparr>dn_success = True, dn_error = None, dn_status = Some 204\<rparr>
   \<and> deleteNote (Returned \<lparr>status = 404, body = b\<rparr>) = \<lparr>dn_success = True, dn_error = None, dn_status = Some 404\<rparr>"
  by (simp add: deleteNote_def split: outcome.splits)

subsection \<open>Duplicate grouping\<close>

lemma set_insertNote: "set (insertNote cmp a bs) = insert a (set bs)"
  by (induction bs) auto

lemma set_sortNotes: "set (sortNotes cmp ns) = set ns"
  unfolding sortNotes_def by (induction ns) (simp_all add: set_insertNote)

lemma sorted_insertNote:
  assumes "consistentCompare cmp" "sorted_wrt (earlier cmp) bs"
  shows "sorted_wrt (earlier cmp) (insertNote cmp a bs)"
  using assms(2)
proof (induction bs)
  case Nil
  show ?case by simp
next
  case (Cons b bs)
  show ?case
  proof (cases "cmp (createdAtOf a) (createdAtOf b) \<le> 0")
    case True
    have "earlier cmp a y" if "y \<in> set bs" for y
    proof -
      from Cons.prems that have "earlier cmp b y" by simp
      with True assms(1) show ?thesis
        unfolding earlier_def consistentCompare_def by blast
    qed
    with True Cons.prems show ?thesis by (simp add: earlier_def)
  next
    case False
    with assms(1) have "earlier cmp b a"
      unfolding earlier_def consistentCompare_def by blast
    with False Cons show ?thesis by (auto simp: set_insertNote)
  qed
qed

lemma sorted_sortNotes:
  "consistentCompare cmp \<Longrightarrow> sorted_wrt (earlier cmp) (sortNotes cmp ns)"
  unfolding sortNotes_def by (induction ns) (simp_all add: sorted_insertNote)

lemma earlier_refl: "consistentCompare cmp \<Longrightarrow> earlier cmp a a"
  unfolding earlier_def consistentCompare_def by blast

lemma sorted_head_earliest:
  assumes "consistentCompare cmp" "sorted_wrt (earlier cmp) (k # ks)" "m \<in> set (k # ks)"
  shows "earlier cmp k m"
  using assms earlier_refl [of cmp k] by auto

lemma duplicateGroup_keep:
  assumes c: "consistentCompare cmp" and g: "g \<in> set (duplicateGroup cmp (key, members))"
  shows "g_keepNote g \<in> set (g_notes g)
     \<and> set (g_notes g) = set members
     \<and> (if \<exists>m\<in>set (g_notes g). hasCompany m
        then hasCompany (g_keepNote g)
             \<and> (\<forall>m\<in>set (g_notes g). hasCompany m \<longrightarrow> earlier cmp (g_keepNote g) m)
        else (\<forall>m\<in>set (g_notes g). earlier cmp (g_keepNote g) m))
     \<and> g_deleteNotes g = filter (\<lambda>n. n_id n \<noteq> n_id (g_keepNote g)) (g_notes g)"
proof -
  define sorted where "sorted = sortNotes cmp members"
  define withCompany where "withCompany = filter hasCompany sorted"
  have s: "sorted_wrt (earlier cmp) sorted" unfolding sorted_def by (rule sorted_sortNotes [OF c])
  then have sw: "sorted_wrt (earlier cmp) withCompany"
    unfolding withCompany_def by (rule sorted_wrt_filter)
  have ss: "set sorted = set members" unfolding sorted_def by (rule set_sortNotes)
  show ?thesis
  proof (cases withCompany)
    case Nil
    then have none: "\<not> (\<exists>m\<in>set sorted. hasCompany m)"
      unfolding withCompany_def by (auto simp: filter_empty_conv)
    from g Nil obtain k ks where sk: "sorted = k # ks"
      and geq: "g = \<lparr>g_key = key, g_notes = sorted, g_keepNote = k,
                     g_deleteNotes = filter (\<lambda>n. n_id n \<noteq> n_id k) sorted\<rparr>"
      by (auto simp: duplicateGroup_def Let_def sorted_def [symmetric] withCompany_def [symmetric]
          split: if_splits list.splits)
    from s sk have all: "\<forall>m\<in>set sorted. earlier cmp k m"
      using sorted_head_earliest [OF c] by blast
    from sk have kin: "k \<in> set sorted" by simp
    from none all kin ss show ?thesis
      unfolding geq by simp
  next
    case (Cons k ks)
    from g Cons have geq: "g = \<lparr>g_key = key, g_notes = sorted, g_keepNote = k,
                     g_deleteNotes = filter (\<lambda>n. n_id n \<noteq> n_id k) sorted\<rparr>"
      by (auto simp: duplicateGroup_def Let_def sorted_def [symmetric] withCompany_def [symmetric]
          split: if_splits)
    have "k \<in> set withCompany" unfolding Cons by simp
    then have kin: "k \<in> set sorted" "hasCompany k"
      unfolding withCompany_def by simp_all
    have "earlier cmp k m" if "m \<in> set sorted" "hasCompany m" for m
    proof -
      from that have "m \<in> set (k # ks)" unfolding Cons [symmetric] withCompany_def by simp
      with sw Cons show ?thesis using sorted_head_earliest [OF c] by metis
    qed
    then have all: "\<forall>m\<in>set sorted. hasCompany m \<longrightarrow> earlier cmp k m" by blast
    from kin all ss show ?thesis
      unfolding geq by auto
  qed
qed

lemma codeUnitCompare_Cons_le:
  "codeUnitCompare (a # as) (b # bs) \<le> 0 \<longleftrightarrow>
     (of_char a :: nat) < of_char b \<or> ((of_char a :: nat) = of_char b \<and> codeUnitCompare as bs \<le> 0)"
  by (cases "(of_char a :: nat) < of_char b"; cases "(of_char b :: nat) < of_char a") auto

lemma codeUnitCompare_Nil_le: "codeUnitCompare [] b \<le> 0"
  by (cases b) simp_all

lemma codeUnitCompare_le_Nil: "codeUnitCompare a [] \<le> 0 \<longleftrightarrow> a = []"
  by (cases a) simp_all

lemma codeUnitCompare_total: "codeUnitCompare a b \<le> 0 \<or> codeUnitCompare b a \<le> 0"
proof (induction a arbitrary: b)
  case Nil
  show ?case by (simp add: codeUnitCompare_Nil_le)
next
  case (Cons x xs)
  show ?case
  proof (cases b)
    case Nil
    then show ?thesis by (simp add: codeUnitCompare_Nil_le)
  next
    case (Cons y ys)
    from Cons.IH [of ys] show ?thesis
      unfolding Cons codeUnitCompare_Cons_le by linarith
  qed
qed

lemma codeUnitCompare_trans:
  "codeUnitCompare a b \<le> 0 \<Longrightarrow> codeUnitCompare b c \<le> 0 \<Longrightarrow> codeUnitCompare a c \<le> 0"
proof (induction a arbitrary: b c)
  case Nil
  show ?case by (rule codeUnitCompare_Nil_le)
next
  case (Cons x xs)
  from Cons.prems(1) obtain y ys where b: "b = y # ys"
    by (cases b) simp_all
  from Cons.prems(2) b obtain z zs where c: "c = z # zs"
    by (cases c) simp_all
  from Cons.prems have 1: "(of_char x :: nat) < of_char y \<or> ((of_char x :: nat) = of_char y \<and> codeUnitCompare xs ys \<le> 0)"
    and 2: "(of_char y :: nat) < of_char z \<or> ((of_char y :: nat) = of_char z \<and> codeUnitCompare ys zs \<le> 0)"
    unfolding b c codeUnitCompare_Cons_le by blast+
  have 3: "codeUnitCompare xs ys \<le> 0 \<Longrightarrow> codeUnitCompare ys zs \<le> 0 \<Longrightarrow> codeUnitCompare xs zs \<le> 0"
    by (rule Cons.IH)
  from 1 2 3 show ?case
    unfolding c codeUnitCompare_Cons_le by linarith
qed

lemma consistent_codeUnitCompare: "consistentCompare codeUnitCompare"
  unfolding consistentCompare_def using codeUnitCompare_total codeUnitCompare_trans by blast

text \<open>
  Claim C1. On the three example notes (with code-unit comparison of \<open>createdAt\<close>)
  \<open>findDuplicateGroups\<close> returns one group holding all three, keeps A, the earliest
  note that has a company, and marks C and B for deletion. In general, for every
  consistent comparison and every list of notes, in every duplicate group the note to
  keep is a member; if some member has a company (a non-empty company id) it has one and
  sorts no later than every member that has one, otherwise it sorts no later than every
  member; and the notes to delete are all the members with another id.
\<close>

theorem findDuplicateGroups_keep:
  "findDuplicateGroups codeUnitCompare [noteA, noteB, noteC] =
     [\<lparr>g_key = ''x|||t|||C1'', g_notes = [noteC, noteA, noteB], g_keepNote = noteA,
       g_deleteNotes = [noteC, noteB]\<rparr>]
   \<and> (consistentCompare cmp \<longrightarrow>
       (\<forall>g\<in>set (findDuplicateGroups cmp notes).
          g_keepNote g \<in> set (g_notes g)
          \<and> (if \<exists>m\<in>set (g_notes g). hasCompany m
             then hasCompany (g_keepNote g)
                  \<and> (\<forall>m\<in>set (g_notes g). hasCompany m \<longrightarrow> earlier cmp (g_keepNote g) m)
             else (\<forall>m\<in>set (g_notes g). earlier cmp (g_keepNote g) m))
          \<and> g_deleteNotes g = filter (\<lambda>n. n_id n \<noteq> n_id (g_keepNote g)) (g_notes g)))"
proof (intro conjI impI ballI)
  show "findDuplicateGroups codeUnitCompare [noteA, noteB, noteC] =
     [\<lparr>g_key = ''x|||t|||C1'', g_notes = [noteC, noteA, noteB], g_keepNote = noteA,
       g_deleteNotes = [noteC, noteB]\<rparr>]"
    by code_simp
next
  fix g
  assume c: "consistentCompare cmp" and "g \<in> set (findDuplicateGroups cmp notes)"
  then obtain key members where "g \<in> set (duplicateGroup cmp (key, members))"
    by (auto simp: findDuplicateGroups_def split: prod.splits)
  from duplicateGroup_keep [OF c this]
  show "g_keepNote g \<in> set (g_notes g)"
    and "if \<exists>m\<in>set (g_notes g). hasCompany m
             then hasCompany (g_keepNote g)
                  \<and> (\<forall>m\<in>set (g_notes g). hasCompany m \<longrightarrow> earlier cmp (g_keepNote g) m)
             else (\<forall>m\<in>set (g_notes g). earlier cmp (g_keepNote g) m)"
    and "g_deleteNotes g = filter (\<lambda>n. n_id n \<noteq> n_id (g_keepNote g)) (g_notes g)"
    by blast+
qed

theorem findDuplicateGroups_keep_witness:
  "consistentCompare codeUnitCompare
   \<and> findDuplicateGroups codeUnitCompare [noteA, noteB, noteC] =
       [\<lparr>g_key = ''x|||t|||C1'', g_notes = [noteC, noteA, noteB], g_keepNote = noteA,
         g_deleteNotes = [noteC, noteB]\<rparr>]
   \<and> hasCompany noteA \<and> earlier codeUnitCompare noteA noteB \<and> \<not> hasCompany noteC"
proof -
  let ?g = "\<lparr>g_key = ''x|||t|||C1'', g_notes = [noteC, noteA, noteB], g_keepNote = noteA,
         g_deleteNotes = [noteC, noteB]\<rparr>"
  note t = findDuplicateGroups_keep [of codeUnitCompare "[noteA, noteB, noteC]"]
  have c: "consistentCompare codeUnitCompare" by (rule consistent_codeUnitCompare)
  have hA: "hasCompany noteA" and hB: "hasCompany noteB" and hC: "\<not> hasCompany noteC"
    by (simp_all add: hasCompany_def companyIdOf_def noteA_def noteB_def noteC_def)
  have e: "findDuplicateGroups codeUnitCompare [noteA, noteB, noteC] = [?g]"
    by (rule t [THEN conjunct1])
  have "?g \<in> set (findDuplicateGroups codeUnitCompare [noteA, noteB, noteC])"
    unfolding e by simp
  from t [THEN conjunct2, rule_format, OF c this, THEN conjunct2, THEN conjunct1] hA hB
  have "earlier codeUnitCompare noteA noteB" by simp
  with c e hA hC show ?thesis by simp
qed

subsection \<open>Field-copy classification\<close>

lemma previewMappings_acc:
  "previewMappings g oe cfs fs ms acc = Returned items \<Longrightarrow>
   items = acc @ concat (map (\<lambda>m. map (previewItem oe cfs m
              (resultsOf (g (fm_sourceFieldId m) (map f_id fs)))
              (resultsOf (g (fm_targetFieldId m) (map f_id fs)))) fs) ms)"
proof (induction ms arbitrary: acc)
  case Nil
  then show ?case by simp
next
  case (Cons m ms)
  from Cons.prems obtain sv tv where
    sv: "g (fm_sourceFieldId m) (map f_id fs) = Returned sv" and
    tv: "g (fm_targetFieldId m) (map f_id fs) = Returned tv" and
    rest: "previewMappings g oe cfs fs ms (acc @ map (previewItem oe cfs m sv tv) fs) = Returned items"
    by (auto split: outcome.splits)
  from Cons.IH [OF rest] show ?case by (simp add: sv tv resultsOf_def)
qed

text \<open>
  Claim C2. When the preview is computed, its items are, mapping by mapping and feature
  by feature, the items built from the two fetched tables. The item of a feature and a
  mapping is \<open>skipped_source_empty\<close> when the source field has no value; otherwise
  \<open>skipped_has_value\<close> when \<open>onlyEmptyTargets\<close> is set and the target field has a
  value; otherwise \<open>will_update\<close>. Its source value is the fetched source value, which
  is the value the execution sends and records as \<open>newValue\<close>. With source and target
  present the action is \<open>skipped_has_value\<close> under \<open>onlyEmptyTargets = true\<close> and
  \<open>will_update\<close> under \<open>onlyEmptyTargets = false\<close>.
\<close>

theorem previewItem_classification:
  "(previewMappings g oe cfs fs ms [] = Returned items \<longrightarrow>
      items = concat (map (\<lambda>m. map (previewItem oe cfs m
                (resultsOf (g (fm_sourceFieldId m) (map f_id fs)))
                (resultsOf (g (fm_targetFieldId m) (map f_id fs)))) fs) ms))
   \<and> pi_featureId (previewItem oe cfs m sv tv f) = f_id f
   \<and> pi_sourceFieldId (previewItem oe cfs m sv tv f) = fm_sourceFieldId m
   \<and> pi_targetFieldId (previewItem oe cfs m sv tv f) = fm_targetFieldId m
   \<and> pi_action (previewItem oe cfs m sv tv f) =
       (if \<not> fd_hasValue (dataOrDefault sv (f_id f)) then skipped_source_empty
        else if oe \<and> fd_hasValue (dataOrDefault tv (f_id f)) then skipped_has_value
        else will_update)
   \<and> pi_sourceValue (previewItem oe cfs m sv tv f) = fd_value (dataOrDefault sv (f_id f))
   \<and> sa_value (setValueArgsOf cfs item) = pi_sourceValue item
   \<and> mr_newValue (migrationResult item called) = pi_sourceValue item
   \<and> previewAction True \<lparr>fd_value = x, fd_hasValue = True\<rparr> \<lparr>fd_value = y, fd_hasValue = True\<rparr>
       = skipped_has_value
   \<and> previewAction False \<lparr>fd_value = x, fd_hasValue = True\<rparr> \<lparr>fd_value = y, fd_hasValue = True\<rparr>
       = will_update"
proof -
  have "previewMappings g oe cfs fs ms [] = Returned items \<longrightarrow>
      items = concat (map (\<lambda>m. map (previewItem oe cfs m
                (resultsOf (g (fm_sourceFieldId m) (map f_id fs)))
                (resultsOf (g (fm_targetFieldId m) (map f_id fs)))) fs) ms)"
    using previewMappings_acc [of g oe cfs fs ms "[]" items] by simp
  moreover have "mr_newValue (migrationResult item called) = pi_sourceValue item"
    by (cases called) (simp_all add: migrationResult_def)
  ultimately show ?thesis
    by (simp add: previewItem_def previewAction_def Let_def setValueArgsOf_def)
qed

lemma example_preview:
  "previewMappings exampleBatch oe [] [exampleFeature] [exampleMapping] [] =
     Returned [exampleItem (if oe then skipped_has_value else will_update)]"
  by (simp add: exampleBatch_def exampleFeature_def exampleMapping_def exampleItem_def
      previewItem_def previewAction_def dataOrDefault_def findField_def fieldNameOrEmpty_def)

theorem previewItem_classification_witness:
  "previewMappings exampleBatch True [] [exampleFeature] [exampleMapping] [] =
     Returned [exampleItem skipped_has_value]
   \<and> [exampleItem skipped_has_value] =
       [previewItem True [] exampleMapping (resultsOf (exampleBatch ''src'' [''f1'']))
          (resultsOf (exampleBatch ''tgt'' [''f1''])) exampleFeature]"
proof -
  have r: "previewMappings exampleBatch True [] [exampleFeature] [exampleMapping] [] =
     Returned [exampleItem skipped_has_value]"
    using example_preview [of True] by simp
  from previewItem_classification [of exampleBatch True "[]" "[exampleFeature]" "[exampleMapping]"
      "[exampleItem skipped_has_value]", THEN conjunct1, rule_format, OF r]
  have "[exampleItem skipped_has_value] =
       [previewItem True [] exampleMapping (resultsOf (exampleBatch ''src'' [''f1'']))
          (resultsOf (exampleBatch ''tgt'' [''f1''])) exampleFeature]"
    by (simp add: exampleMapping_def exampleFeature_def)
  with r show ?thesis by simp
qed

subsection \<open>Reloading a preview\<close>



subsection \<open>The executors: structure of a run\<close>

text \<open>The migration pushes one result per item, made from what the sink answered to that
  item.\<close>

lemma executeItems_pushed:
  "pushed (fst (executeItems sink cfs items s)) = map2 migrationResult items (sinkCalls sink cfs items s)"
proof (induction items arbitrary: s)
  case Nil
  show ?case by (simp add: pushed_def)
next
  case (Cons item items)
  obtain called s1 where c: "sink (setValueArgsOf cfs item) s = (called, s1)"
    by (cases "sink (setValueArgsOf cfs item) s")
  obtain steps s2 where r: "executeItems sink cfs items s1 = (steps, s2)"
    by (cases "executeItems sink cfs items s1")
  from Cons.IH [of s1] r have "pushed steps = map2 migrationResult items (sinkCalls sink cfs items s1)"
    by simp
  with c r show ?case by (simp add: pushed_def)
qed

lemma length_sinkCalls: "length (sinkCalls sink cfs items s) = length items"
  by (induction items arbitrary: s) (simp_all split: prod.splits)

lemma executeItems_shape:
  "shape (fst (executeItems sink cfs items s)) = replicate (length items) None"
proof (induction items arbitrary: s)
  case Nil
  show ?case by (simp add: shape_def)
next
  case (Cons item items)
  obtain called s1 where c: "sink (setValueArgsOf cfs item) s = (called, s1)"
    by (cases "sink (setValueArgsOf cfs item) s")
  obtain steps s2 where r: "executeItems sink cfs items s1 = (steps, s2)"
    by (cases "executeItems sink cfs items s1")
  from Cons.IH [of s1] r have "shape steps = replicate (length items) None" by simp
  with c r show ?case by (simp add: shape_def)
qed

lemma executeItems_append:
  "executeItems sink cfs (xs @ ys) s =
     (case executeItems sink cfs xs s of
        (steps1, s1) \<Rightarrow> (case executeItems sink cfs ys s1 of (steps2, s2) \<Rightarrow> (steps1 @ steps2, s2)))"
  by (induction xs arbitrary: s) (simp_all split: prod.splits)

lemma migrationResult_success:
  "mr_success (migrationResult item called) = setValueSucceeded called"
  by (cases called) (simp_all add: migrationResult_def setValueSucceeded_def)

text \<open>Where the deletion of notes pushes and where it waits.\<close>

lemma deleteLoop_shape:
  "shape (fst (deleteLoop sink cs n i ns s)) =
     concat (map (\<lambda>k. None # (if (k + 1) mod 50 = 0 \<and> k + 1 < n then [Some 1000] else []))
               [i..<i + length ns])"
proof (induction ns arbitrary: i s)
  case Nil
  show ?case by (simp add: shape_def)
next
  case (Cons a ns)
  have "i < i + length (a # ns)" by simp
  then have "[i..<i + length (a # ns)] = i # [Suc i..<i + length (a # ns)]"
    by (rule upt_conv_Cons)
  then have u: "[i..<i + length (a # ns)] = i # [i + 1..<(i + 1) + length ns]"
    by simp
  obtain called s1 where c: "sink (n_id a) s = (called, s1)" by (cases "sink (n_id a) s")
  obtain steps s2 where r: "deleteLoop sink cs n (i + 1) ns s1 = (steps, s2)"
    by (cases "deleteLoop sink cs n (i + 1) ns s1")
  from Cons.IH [of "i + 1" s1] r
  have ih: "shape steps = concat (map (\<lambda>k. None # (if (k + 1) mod 50 = 0 \<and> k + 1 < n then [Some 1000] else []))
               [i + 1..<(i + 1) + length ns])" by simp
  show ?case unfolding u using c r ih by (simp add: shape_def)
qed

lemma updateLoop_append:
  "updateLoop remote cfs p uuid vcs n i (xs @ ys) s =
     (case updateLoop remote cfs p uuid vcs n i xs s of
        (steps1, s1) \<Rightarrow>
          (case updateLoop remote cfs p uuid vcs n (i + length xs) ys s1 of
             (steps2, s2) \<Rightarrow> (steps1 @ steps2, s2)))"
  by (induction xs arbitrary: i s) (simp_all split: prod.splits)

lemma updateResult_success:
  "ur_success (updateResult ri fid name fus called) = updateSucceeded called
   \<and> ur_fieldUpdates (updateResult ri fid name fus called) = fus
   \<and> ur_allFieldsSkipped (updateResult ri fid name fus called) = Some False"
  by (cases called) (simp_all add: updateResult_def updateSucceeded_def)

text \<open>The loop over the value columns takes a column that gives a field update and passes
  over every other column.\<close>

lemma fieldsLoop_skip:
  "\<not> givesFieldUpdate cfs row m \<Longrightarrow>
   fieldsLoop remote cfs p fid row (m # ms) acc s = fieldsLoop remote cfs p fid row ms acc s"
  by (cases acc)
     (auto simp: givesFieldUpdate_def rowValue_def split: option.splits jsval.splits)

lemma fieldsLoop_take:
  assumes "cm_mappedTo m = Some t" "findField cfs t = Some field" "row (cm_csvColumn m) = Some v"
    "\<not> isBlankValue (Str v)" "\<not> isNaN (numericValue v)"
    "checkExisting remote p (cf_id field) fid s = ((oldValue, shouldSkip), s1)"
  shows "fieldsLoop remote cfs p fid row (m # ms) (fus, cus) s =
     fieldsLoop remote cfs p fid row ms
       (fus @ [\<lparr>fu_fieldId = cf_id field, fu_fieldName = cf_name field, fu_oldValue = oldValue,
                 fu_newValue = numericValue v, fu_skipped = shouldSkip\<rparr>],
        if shouldSkip then cus
        else cus @ [\<lparr>cu_fieldId = cf_id field, cu_fieldType = cf_type field,
                      cu_value = numericValue v\<rparr>]) s1"
  using assms by (simp add: rowValue_def del: isBlankValue.simps)

lemma givesFieldUpdateE:
  assumes "givesFieldUpdate cfs row m"
  obtains t field v where "cm_mappedTo m = Some t" "findField cfs t = Some field"
    "row (cm_csvColumn m) = Some v" "\<not> isBlankValue (Str v)" "\<not> isNaN (numericValue v)"
  using assms unfolding givesFieldUpdate_def by (auto split: option.splits)

lemma fieldsLoop_updates:
  assumes "fieldsLoop remote cfs p fid row ms (fus, cus) s = ((fus', cus'), s')"
  shows "(fus' = [] \<longleftrightarrow> fus = [] \<and> \<not> list_ex (givesFieldUpdate cfs row) ms)
       \<and> ((cus \<noteq> [] \<longrightarrow> fus \<noteq> []) \<longrightarrow> (cus' \<noteq> [] \<longrightarrow> fus' \<noteq> []))"
  using assms
proof (induction ms arbitrary: fus cus s)
  case Nil
  then show ?case by simp
next
  case (Cons m ms)
  show ?case
  proof (cases "givesFieldUpdate cfs row m")
    case False
    from Cons.prems have "fieldsLoop remote cfs p fid row ms (fus, cus) s = ((fus', cus'), s')"
      by (simp only: fieldsLoop_skip [OF False])
    from Cons.IH [OF this] False show ?thesis by auto
  next
    case True
    then obtain t field v where h: "cm_mappedTo m = Some t" "findField cfs t = Some field"
      "row (cm_csvColumn m) = Some v" "\<not> isBlankValue (Str v)" "\<not> isNaN (numericValue v)"
      by (rule givesFieldUpdateE)
    obtain oldValue shouldSkip s1 where
      c: "checkExisting remote p (cf_id field) fid s = ((oldValue, shouldSkip), s1)"
      by (metis surj_pair)
    from Cons.prems
    have "fieldsLoop remote cfs p fid row ms
       (fus @ [\<lparr>fu_fieldId = cf_id field, fu_fieldName = cf_name field, fu_oldValue = oldValue,
                 fu_newValue = numericValue v, fu_skipped = shouldSkip\<rparr>],
        if shouldSkip then cus
        else cus @ [\<lparr>cu_fieldId = cf_id field, cu_fieldType = cf_type field,
                      cu_value = numericValue v\<rparr>]) s1 = ((fus', cus'), s')"
      by (simp only: fieldsLoop_take [where row = row and m = m, OF h c])
    from Cons.IH [OF this] True show ?thesis by auto
  qed
qed

text \<open>The bulk update records for each row what the write answered to that row.\<close>

lemma length_writeCalls: "length (writeCalls remote cfs p uuid vcs entries s) = length entries"
proof (induction entries arbitrary: s)
  case Nil
  show ?case by simp
next
  case (Cons entry entries)
  show ?case by (simp add: Let_def Cons.IH split: prod.splits)
qed

lemma pushed_append: "pushed (xs @ ys) = pushed xs @ pushed ys"
  by (simp add: pushed_def)

lemma pushed_Cons: "pushed (Pushed r # xs) = r # pushed xs"
  by (simp add: pushed_def)

lemma pushed_rateLimitDelay: "pushed (rateLimitDelay every ms i n) = []"
  by (simp add: pushed_def rateLimitDelay_def)

lemma updateLoop_recorded:
  "map (\<lambda>r. (ur_rowIndex r, ur_featureId r, ur_success r, ur_error r))
     (pushed (fst (updateLoop remote cfs p uuid vcs n i entries s)))
   = concat (map2 (recorded cfs vcs uuid) entries (writeCalls remote cfs p uuid vcs entries s))"
proof (induction entries arbitrary: i s)
  case Nil
  show ?case by (simp add: pushed_def)
next
  case (Cons entry entries)
  obtain ri row where e: "entry = (ri, row)" by (cases entry)
  define fid where "fid = trim (orEmpty (row uuid))"
  obtain fc s1 where g: "getFeature remote fid s = (fc, s1)" by (cases "getFeature remote fid s")
  obtain fus cus s2 where f: "fieldsLoop remote cfs p fid row vcs ([], []) s1 = ((fus, cus), s2)"
    by (metis surj_pair)
  obtain called s3 where u: "updateFeatureCustomFields remote fid cus s2 = (called, s3)"
    by (cases "updateFeatureCustomFields remote fid cus s2")
  from fieldsLoop_updates [OF f]
  have a: "fus = [] \<longleftrightarrow> \<not> list_ex (givesFieldUpdate cfs row) vcs" and b: "cus \<noteq> [] \<longrightarrow> fus \<noteq> []"
    by blast+
  have step: "pushed (fst (updateLoop remote cfs p uuid vcs n i ((ri, row) # entries) s))
      = pushed (fst (processRow remote cfs p uuid vcs n i (ri, row) s))
        @ pushed (fst (updateLoop remote cfs p uuid vcs n (i + 1) entries
                         (snd (processRow remote cfs p uuid vcs n i (ri, row) s))))"
    by (simp add: case_prod_beta pushed_append)
  show ?case
  proof (cases "cus = []")
    case True
    note ih = Cons.IH [of "i + 1" s2]
    have w: "writeCalls remote cfs p uuid vcs ((ri, row) # entries) s
        = None # writeCalls remote cfs p uuid vcs entries s2"
      using True by (simp add: fid_def [symmetric] g f)
    show ?thesis
    proof (cases "fus = []")
      case t: True
      have pr: "processRow remote cfs p uuid vcs n i (ri, row) s = ([], s2)"
        using True t unfolding processRow_def by (simp add: fid_def [symmetric] g f)
      show ?thesis
        unfolding e step w pr using a t ih by (simp add: recorded_def pushed_def)
    next
      case fl: False
      have pr: "processRow remote cfs p uuid vcs n i (ri, row) s =
         (Pushed \<lparr>ur_rowIndex = ri, ur_featureId = fid, ur_featureName = featureNameOf fid fc,
                  ur_success = True, ur_error = None, ur_fieldUpdates = fus,
                  ur_allFieldsSkipped = Some True\<rparr> # rateLimitDelay 10 200 i n, s2)"
        using True fl unfolding processRow_def by (simp add: fid_def [symmetric] g f)
      show ?thesis
        unfolding e step w pr using a fl ih
        by (simp add: recorded_def fid_def pushed_Cons pushed_rateLimitDelay)
    qed
  next
    case False
    note ih = Cons.IH [of "i + 1" s3]
    have w: "writeCalls remote cfs p uuid vcs ((ri, row) # entries) s
        = Some called # writeCalls remote cfs p uuid vcs entries s3"
      using False by (simp add: fid_def [symmetric] g f u)
    have pr: "processRow remote cfs p uuid vcs n i (ri, row) s =
       (Pushed (updateResult ri fid (featureNameOf fid fc) fus called) # rateLimitDelay 10 200 i n, s3)"
      using False unfolding processRow_def by (simp add: fid_def [symmetric] g f u)
    show ?thesis
      unfolding e step w pr using ih
      by (cases called)
         (simp_all add: recorded_def fid_def updateResult_def updateSucceeded_def pushed_Cons
            pushed_rateLimitDelay)
  qed
qed

lemma handleStartUpdate_recorded:
  "map (\<lambda>r. (ur_rowIndex r, ur_featureId r, ur_success r, ur_error r))
     (pushed (fst (handleStartUpdate remote cfs p (Some rows) uuid cms s)))
   = (if uuid = [] then []
      else concat (map2 (recorded cfs (getValueColumns cms uuid) uuid)
                     (rowsToProcess rows uuid (getValueColumns cms uuid))
                     (writeCalls remote cfs p uuid (getValueColumns cms uuid)
                        (rowsToProcess rows uuid (getValueColumns cms uuid)) s)))"
  using updateLoop_recorded [of remote cfs p uuid "getValueColumns cms uuid"
      "length (rowsToProcess rows uuid (getValueColumns cms uuid))" 0
      "rowsToProcess rows uuid (getValueColumns cms uuid)" s]
  by (simp add: handleStartUpdate_def Let_def pushed_def)

lemma shape_rateLimitDelay:
  "shape (rateLimitDelay every ms i n) = (if (i + 1) mod every = 0 \<and> i + 1 < n then [Some ms] else [])"
  by (simp add: shape_def rateLimitDelay_def)

lemma processRow_shape:
  "shape (fst (processRow remote cfs p uuid vcs n i entry s)) =
     (if list_ex (givesFieldUpdate cfs (snd entry)) vcs
      then None # (if (i + 1) mod 10 = 0 \<and> i + 1 < n then [Some 200] else [])
      else [])"
proof -
  obtain ri row where e: "entry = (ri, row)" by (cases entry)
  define fid where "fid = trim (orEmpty (row uuid))"
  obtain fc s1 where g: "getFeature remote fid s = (fc, s1)" by (cases "getFeature remote fid s")
  obtain fus cus s2 where f: "fieldsLoop remote cfs p fid row vcs ([], []) s1 = ((fus, cus), s2)"
    by (metis surj_pair)
  obtain called s3 where u: "updateFeatureCustomFields remote fid cus s2 = (called, s3)"
    by (cases "updateFeatureCustomFields remote fid cus s2")
  from fieldsLoop_updates [OF f]
  have a: "fus = [] \<longleftrightarrow> \<not> list_ex (givesFieldUpdate cfs row) vcs" and b: "cus \<noteq> [] \<longrightarrow> fus \<noteq> []"
    by blast+
  have d: "shape (Pushed r # rateLimitDelay 10 200 i n)
      = None # (if (i + 1) mod 10 = 0 \<and> i + 1 < n then [Some 200] else [])" for r :: UpdateResult
    using shape_rateLimitDelay [of 10 200 i n] by (simp add: shape_def)
  show ?thesis
  proof (cases "fus = []")
    case True
    with b have "cus = []" by blast
    with True a show ?thesis
      unfolding e processRow_def by (simp add: fid_def [symmetric] g f shape_def)
  next
    case False
    with a have l: "list_ex (givesFieldUpdate cfs row) vcs" by simp
    show ?thesis
    proof (cases "cus = []")
      case True
      with False l d show ?thesis
        unfolding e processRow_def by (simp add: fid_def [symmetric] g f)
    next
      case c: False
      with False l d show ?thesis
        unfolding e processRow_def by (simp add: fid_def [symmetric] g f u)
    qed
  qed
qed

lemma updateLoop_shape:
  "shape (fst (updateLoop remote cfs p uuid vcs n i entries s)) =
     concat (map (\<lambda>(k, entry).
                 if list_ex (givesFieldUpdate cfs (snd entry)) vcs
                 then None # (if (k + 1) mod 10 = 0 \<and> k + 1 < n then [Some 200] else [])
                 else [])
               (zip [i..<i + length entries] entries))"
proof (induction entries arbitrary: i s)
  case Nil
  show ?case by (simp add: shape_def)
next
  case (Cons entry entries)
  have "i < i + length (entry # entries)" by simp
  then have "[i..<i + length (entry # entries)] = i # [Suc i..<i + length (entry # entries)]"
    by (rule upt_conv_Cons)
  then have u: "[i..<i + length (entry # entries)] = i # [i + 1..<(i + 1) + length entries]"
    by simp
  obtain steps s1 where p: "processRow remote cfs p uuid vcs n i entry s = (steps, s1)"
    by (cases "processRow remote cfs p uuid vcs n i entry s")
  obtain steps' s2 where r: "updateLoop remote cfs p uuid vcs n (i + 1) entries s1 = (steps', s2)"
    by (cases "updateLoop remote cfs p uuid vcs n (i + 1) entries s1")
  from processRow_shape [of remote cfs p uuid vcs n i entry s] p
  have a: "shape steps = (if list_ex (givesFieldUpdate cfs (snd entry)) vcs
      then None # (if (i + 1) mod 10 = 0 \<and> i + 1 < n then [Some 200] else [])
      else [])" by simp
  from Cons.IH [of "i + 1" s1] r
  have b: "shape steps' = concat (map (\<lambda>(k, entry).
                 if list_ex (givesFieldUpdate cfs (snd entry)) vcs
                 then None # (if (k + 1) mod 10 = 0 \<and> k + 1 < n then [Some 200] else [])
                 else [])
               (zip [i + 1..<(i + 1) + length entries] entries))" by simp
  have "shape (steps @ steps') = shape steps @ shape steps'" by (simp add: shape_def)
  with a b show ?case unfolding u using p r by simp
qed

text \<open>The numbers that the examples read, and the definitions that their runs unfold.\<close>

lemmas number_defs = numericValue_def cleanedValue_def parseFloat_def trimStart_def trim_def
  isWhiteSpace_def unsignedLiteral_def startsWith_def isDigit_def digitsValue_def exponentOf_def
  Let_def decimalToDouble_def roundRatio_def roundHalfEven_def binaryExponent_def bitLength.simps
  isNaN_def

lemma example_numbers:
  "numericValue ''10'' = Num 10" "numericValue ''20'' = Num 20" "numericValue ''5'' = Num 5"
  "numericValue ''1'' = Num 1" "numericValue ''2'' = Num 2" "numericValue ''abc'' = NaN"
  "parseFloat ''abc'' = NaN"
  by (simp_all add: number_defs)

text \<open>
  The number read is the double nearest to the decimal: \<open>9007199254740993\<close>, which is
  \<open>2 ^ 53 + 1\<close>, reads as \<open>2 ^ 53\<close>, and \<open>0.1\<close> as the double next to one tenth.
\<close>

lemma parseFloat_rounds:
  "parseFloat ''9007199254740993'' = Num 9007199254740992"
  "parseFloat ''0.1'' = Num (3602879701896397 / 2 ^ 55)"
  by (simp_all add: number_defs)

lemmas example_defs = exampleRemote_def exampleFields_def exampleRow_def exampleColumns_def
  findField_def trim_def isWhiteSpace_def orEmpty_def example_numbers isNaN_def Let_def
  reportsValue_def featureNameOf_def updateSucceeded_def rateLimitDelay_def

lemmas run_defs = handleStartUpdate_def getValueColumns_def rowsToProcess_def featureIdOf_def
  hasValueToUpdate_def rowValue_def processRow_def checkExisting_def updateResult_def


subsection \<open>Preserving existing values\<close>




subsection \<open>Isolation of failures\<close>

text \<open>
  Claim C4. In both executors the results are, item by item, made from what the sink
  answered to that item, whatever the other items met. In the migration a result is a
  failure exactly when its own sink call threw or returned without success, and it
  carries that call's error. In the bulk update, for every list of rows, every remote
  system and both settings of \<open>preserveExistingValues\<close>, the index, the feature, the
  \<open>success\<close> and the \<open>error\<close> of the results are, row by row, those of the row's own
  write: a failure exactly when that write threw or returned without success, with its
  error, and a success for a row all of whose fields were skipped. Every item and every
  row is answered by the sink, and the run over a list followed by another list is the
  run over the first followed by the run over the second from the state the first one
  left. For ten items (and for ten rows of a file) whose fifth sink call fails, the ten
  results are nine successes and one failure, the fifth.
\<close>

theorem executor_isolation:
  "pushed (fst (executeItems sink cfs items s)) = map2 migrationResult items (sinkCalls sink cfs items s)
   \<and> length (sinkCalls sink cfs items s) = length items
   \<and> mr_success (migrationResult item called) = setValueSucceeded called
   \<and> mr_error (migrationResult item (Returned result)) = sv_error result
   \<and> mr_error (migrationResult item (Threw e)) = Some (errorString e)
   \<and> executeItems sink cfs (xs @ ys) s =
       (case executeItems sink cfs xs s of
          (steps1, s1) \<Rightarrow> (case executeItems sink cfs ys s1 of (steps2, s2) \<Rightarrow> (steps1 @ steps2, s2)))
   \<and> map (\<lambda>r. (ur_rowIndex r, ur_featureId r, ur_success r, ur_error r))
        (pushed (fst (updateLoop remote ucfs p uuid vcs n i rows us)))
       = concat (map2 (recorded ucfs vcs uuid) rows (writeCalls remote ucfs p uuid vcs rows us))
   \<and> length (writeCalls remote ucfs p uuid vcs rows us) = length rows
   \<and> map (\<lambda>r. (ur_rowIndex r, ur_featureId r, ur_success r, ur_error r))
        (pushed (fst (handleStartUpdate remote ucfs p (Some csvRows) uuid cms us)))
       = (if uuid = [] then []
          else concat (map2 (recorded ucfs (getValueColumns cms uuid) uuid)
                         (rowsToProcess csvRows uuid (getValueColumns cms uuid))
                         (writeCalls remote ucfs p uuid (getValueColumns cms uuid)
                            (rowsToProcess csvRows uuid (getValueColumns cms uuid)) us)))
   \<and> recorded ucfs vcs uuid entry (Some ucalled) =
       [(fst entry, trim (orEmpty (snd entry uuid)), updateSucceeded ucalled,
         (case ucalled of Threw e \<Rightarrow> Some (errorString e) | Returned uresult \<Rightarrow> uf_error uresult))]
   \<and> updateLoop remote ucfs p uuid vcs n i (rows1 @ rows2) us =
       (case updateLoop remote ucfs p uuid vcs n i rows1 us of
          (steps1, s1) \<Rightarrow>
            (case updateLoop remote ucfs p uuid vcs n (i + length rows1) rows2 s1 of
               (steps2, s2) \<Rightarrow> (steps1 @ steps2, s2)))
   \<and> ur_success (updateResult ri fid name fus ucalled) = updateSucceeded ucalled
   \<and> ur_error (updateResult ri fid name fus (Returned uresult)) = uf_error uresult
   \<and> ur_error (updateResult ri fid name fus (Threw e)) = Some (errorString e)
   \<and> map (\<lambda>r. (mr_featureId r, mr_success r))
        (pushed (snd (fst (handleExecuteMigration (failingSink 5) [] (exampleState tenItems) 0))))
       = [(''f1'', True), (''f2'', True), (''f3'', True), (''f4'', True), (''f5'', False),
          (''f6'', True), (''f7'', True), (''f8'', True), (''f9'', True), (''f10'', True)]
   \<and> map (\<lambda>r. (ur_featureId r, ur_success r))
        (pushed (fst (handleStartUpdate (exampleRemote 5) exampleFields False (Some tenRows) ''id''
                        exampleColumns 0)))
       = [(''u1'', True), (''u2'', True), (''u3'', True), (''u4'', True), (''u5'', False),
          (''u6'', True), (''u7'', True), (''u8'', True), (''u9'', True), (''u10'', True)]"
proof (intro conjI)
  show "pushed (fst (executeItems sink cfs items s)) = map2 migrationResult items (sinkCalls sink cfs items s)"
    by (rule executeItems_pushed)
  show "length (sinkCalls sink cfs items s) = length items"
    by (rule length_sinkCalls)
  show "mr_success (migrationResult item called) = setValueSucceeded called"
    using migrationResult_success [of item called] by simp
  show "mr_error (migrationResult item (Returned result)) = sv_error result"
    by (simp add: migrationResult_def)
  show "mr_error (migrationResult item (Threw e)) = Some (errorString e)"
    by (simp add: migrationResult_def)
  show "executeItems sink cfs (xs @ ys) s =
       (case executeItems sink cfs xs s of
          (steps1, s1) \<Rightarrow> (case executeItems sink cfs ys s1 of (steps2, s2) \<Rightarrow> (steps1 @ steps2, s2)))"
    by (rule executeItems_append)
  show "map (\<lambda>r. (ur_rowIndex r, ur_featureId r, ur_success r, ur_error r))
        (pushed (fst (updateLoop remote ucfs p uuid vcs n i rows us)))
       = concat (map2 (recorded ucfs vcs uuid) rows (writeCalls remote ucfs p uuid vcs rows us))"
    by (rule updateLoop_recorded)
  show "length (writeCalls remote ucfs p uuid vcs rows us) = length rows"
    by (rule length_writeCalls)
  show "map (\<lambda>r. (ur_rowIndex r, ur_featureId r, ur_success r, ur_error r))
        (pushed (fst (handleStartUpdate remote ucfs p (Some csvRows) uuid cms us)))
       = (if uuid = [] then []
          else concat (map2 (recorded ucfs (getValueColumns cms uuid) uuid)
                         (rowsToProcess csvRows uuid (getValueColumns cms uuid))
                         (writeCalls remote ucfs p uuid (getValueColumns cms uuid)
                            (rowsToProcess csvRows uuid (getValueColumns cms uuid)) us)))"
    by (rule handleStartUpdate_recorded)
  show "recorded ucfs vcs uuid entry (Some ucalled) =
       [(fst entry, trim (orEmpty (snd entry uuid)), updateSucceeded ucalled,
         (case ucalled of Threw e \<Rightarrow> Some (errorString e) | Returned uresult \<Rightarrow> uf_error uresult))]"
    by (simp add: recorded_def)
  show "updateLoop remote ucfs p uuid vcs n i (rows1 @ rows2) us =
       (case updateLoop remote ucfs p uuid vcs n i rows1 us of
          (steps1, s1) \<Rightarrow>
            (case updateLoop remote ucfs p uuid vcs n (i + length rows1) rows2 s1 of
               (steps2, s2) \<Rightarrow> (steps1 @ steps2, s2)))"
    by (rule updateLoop_append)
  show "ur_success (updateResult ri fid name fus ucalled) = updateSucceeded ucalled"
    using updateResult_success [of ri fid name fus ucalled] by simp
  show "ur_error (updateResult ri fid name fus (Returned uresult)) = uf_error uresult"
    by (simp add: updateResult_def)
  show "ur_error (updateResult ri fid name fus (Threw e)) = Some (errorString e)"
    by (simp add: updateResult_def)
  show "map (\<lambda>r. (mr_featureId r, mr_success r))
        (pushed (snd (fst (handleExecuteMigration (failingSink 5) [] (exampleState tenItems) 0))))
       = [(''f1'', True), (''f2'', True), (''f3'', True), (''f4'', True), (''f5'', False),
          (''f6'', True), (''f7'', True), (''f8'', True), (''f9'', True), (''f10'', True)]"
    by code_simp
  show "map (\<lambda>r. (ur_featureId r, ur_success r))
        (pushed (fst (handleStartUpdate (exampleRemote 5) exampleFields False (Some tenRows) ''id''
                        exampleColumns 0)))
       = [(''u1'', True), (''u2'', True), (''u3'', True), (''u4'', True), (''u5'', False),
          (''u6'', True), (''u7'', True), (''u8'', True), (''u9'', True), (''u10'', True)]"
    by (simp add: run_defs example_defs tenRows_def numberToString.simps pushed_def upt_rec)
qed

subsection \<open>Numeric coercion\<close>

lemma numericValue_examples:
  "numericValue ''45%'' = Num 45 \<and> numericValue '' 12.5 % '' = Num (25 / 2) \<and> numericValue ''abc'' = NaN"
  by (simp add: number_defs)

lemma fieldsLoop_not_numeric:
  assumes "cm_mappedTo mapping = Some t" "findField customFields t = Some field"
    "row (cm_csvColumn mapping) = Some v" "isNaN (numericValue v)"
  shows "fieldsLoop remote customFields preserve featureId row (mapping # mappings) acc s
         = fieldsLoop remote customFields preserve featureId row mappings acc s"
  using assms by (cases acc) (simp add: rowValue_def)

lemma setFieldsLoop_not_numeric:
  assumes "v \<noteq> []" "find (\<lambda>f. fc_id f = fieldId) companyFields = Some config"
    "fc_type config = ''number''" "isNaN (parseFloat v)"
  shows "setFieldsLoop sink companyFields cid ((fieldId, Str v) # entries) errs s
         = setFieldsLoop sink companyFields cid entries
             (errs @ [''Invalid number value for '' @ fc_name config @ '': '' @ v]) s"
  using assms by (simp add: Let_def)

text \<open>
  Claim C6, as stated, fails in the bulk update: a mapped value that does not read as a
  number is left out without any record. For a row with the values \<open>abc\<close> and \<open>5\<close> the
  result has no error and a single field update, for the second field.
\<close>

theorem numeric_coercion_silent_counterexample:
  "handleStartUpdate (exampleRemote 0) exampleFields False (Some [exampleRow ''abc'' ''5'']) ''id''
     exampleColumns 0 =
   ([Pushed \<lparr>ur_rowIndex = 0, ur_featureId = ''u1'', ur_featureName = ''Feature'',
       ur_success = True, ur_error = None,
       ur_fieldUpdates =
         [\<lparr>fu_fieldId = ''F2'', fu_fieldName = ''Weight'',
             fu_oldValue = None, fu_newValue = Num 5, fu_skipped = False\<rparr>],
       ur_allFieldsSkipped = Some False\<rparr>], 1)"
  by (simp add: run_defs example_defs)

text \<open>
  Claim C6, amended. The value is trimmed, stripped of every \<open>%\<close> and read by
  \<open>parseFloat\<close>: \<open>45%\<close> gives 45 and \<open> 12.5 % \<close> gives 12.5, and \<open>abc\<close> gives
  \<open>NaN\<close>. A mapped value that does not read as a number is never sent and never
  replaced by zero, and the other fields of the row are processed as if it were not
  there: in the bulk update it is passed over with no record, in the company import it
  adds the field error \<open>Invalid number value for NAME: VALUE\<close> to the row's result.
\<close>

theorem numeric_coercion_failures:
  "numericValue ''45%'' = Num 45 \<and> numericValue '' 12.5 % '' = Num (25 / 2)
   \<and> numericValue ''abc'' = NaN
   \<and> (cm_mappedTo mapping = Some t \<and> findField customFields t = Some field
        \<and> row (cm_csvColumn mapping) = Some v \<and> isNaN (numericValue v) \<longrightarrow>
       fieldsLoop remote customFields preserve featureId row (mapping # mappings) acc s
         = fieldsLoop remote customFields preserve featureId row mappings acc s)
   \<and> (w \<noteq> [] \<and> find (\<lambda>f. fc_id f = fieldId) companyFields = Some config
        \<and> fc_type config = ''number'' \<and> isNaN (parseFloat w) \<longrightarrow>
       setFieldsLoop setCompanyFieldValue companyFields cid ((fieldId, Str w) # entries) errs cs
         = setFieldsLoop setCompanyFieldValue companyFields cid entries
             (errs @ [''Invalid number value for '' @ fc_name config @ '': '' @ w]) cs)"
  using numericValue_examples
    fieldsLoop_not_numeric [of mapping t customFields field row v remote preserve featureId mappings acc s]
    setFieldsLoop_not_numeric [of w fieldId companyFields config setCompanyFieldValue cid entries errs cs]
  by blast

theorem numeric_coercion_failures_witness:
  "isNaN (numericValue ''abc'') \<and> isNaN (parseFloat ''abc'')
   \<and> fieldsLoop (exampleRemote 0) exampleFields False ''u1'' (exampleRow ''abc'' ''5'')
         [\<lparr>cm_csvColumn = ''a'', cm_mappedTo = Some ''F1''\<rparr>, \<lparr>cm_csvColumn = ''b'', cm_mappedTo = Some ''F2''\<rparr>]
         ([], []) 0
       = fieldsLoop (exampleRemote 0) exampleFields False ''u1'' (exampleRow ''abc'' ''5'')
         [\<lparr>cm_csvColumn = ''b'', cm_mappedTo = Some ''F2''\<rparr>] ([], []) 0
   \<and> setFieldsLoop exampleCompanySink exampleCompanyFields ''c1'' [(''F1'', Str ''abc'')] [] 0
       = (Returned [''Invalid number value for Score: abc''], 0)"
proof -
  note t = numeric_coercion_failures [where mapping = "\<lparr>cm_csvColumn = ''a'', cm_mappedTo = Some ''F1''\<rparr>"
      and t = "''F1''" and customFields = exampleFields
      and field = "\<lparr>cf_id = ''F1'', cf_name = ''Score'', cf_type = ''number''\<rparr>"
      and row = "exampleRow ''abc'' ''5''" and v = "''abc''" and remote = "exampleRemote 0"
      and preserve = False and featureId = "''u1''"
      and mappings = "[\<lparr>cm_csvColumn = ''b'', cm_mappedTo = Some ''F2''\<rparr>]"
      and acc = "([], [])" and s = 0
      and w = "''abc''" and fieldId = "''F1''" and companyFields = exampleCompanyFields
      and config = "\<lparr>fc_id = ''F1'', fc_name = ''Score'', fc_type = ''number''\<rparr>"
      and setCompanyFieldValue = exampleCompanySink and cid = "''c1''" and entries = "[]"
      and errs = "[]" and cs = 0]
  have n: "isNaN (numericValue ''abc'')" and n': "isNaN (parseFloat ''abc'')"
    by (simp_all add: example_defs)
  have h1: "cm_mappedTo \<lparr>cm_csvColumn = ''a'', cm_mappedTo = Some ''F1''\<rparr> = Some ''F1''
      \<and> findField exampleFields ''F1'' = Some \<lparr>cf_id = ''F1'', cf_name = ''Score'', cf_type = ''number''\<rparr>
      \<and> exampleRow ''abc'' ''5'' (cm_csvColumn \<lparr>cm_csvColumn = ''a'', cm_mappedTo = Some ''F1''\<rparr>) = Some ''abc''
      \<and> isNaN (numericValue ''abc'')"
    using n by (simp add: exampleFields_def findField_def exampleRow_def)
  have h2: "''abc'' \<noteq> [] \<and> find (\<lambda>f. fc_id f = ''F1'') exampleCompanyFields
        = Some \<lparr>fc_id = ''F1'', fc_name = ''Score'', fc_type = ''number''\<rparr>
      \<and> fc_type \<lparr>fc_id = ''F1'', fc_name = ''Score'', fc_type = ''number''\<rparr> = ''number''
      \<and> isNaN (parseFloat ''abc'')"
    using n' by (simp add: exampleCompanyFields_def)
  from t [THEN conjunct2, THEN conjunct2, THEN conjunct2, THEN conjunct1, rule_format, OF h1]
    t [THEN conjunct2, THEN conjunct2, THEN conjunct2, THEN conjunct2, rule_format, OF h2] n n'
  show ?thesis by simp
qed

subsection \<open>Throttling\<close>

text \<open>
  Claim C7, as stated, fails: the deletion of notes waits after every 50 notes, not after
  every 10, and the migration never waits. Of twelve notes that are duplicates of one
  another eleven are deleted, and that run does not wait at all.
\<close>

theorem rate_limit_delays_counterexample:
  "length (notesToDelete (ns_duplicateGroups
      (handleLoadNotes codeUnitCompare (Returned twelveNotes) (Returned []) emptyNotesState))) = 11
   \<and> shape (snd (fst (handleDeleteDuplicates deletedSink
        (handleLoadNotes codeUnitCompare (Returned twelveNotes) (Returned []) emptyNotesState) 0)))
       = replicate 11 None"
  by code_simp

text \<open>
  Claim C7, amended. In the bulk update a wait of 200 ms follows the result of the row
  at position \<open>k + 1\<close> of the rows to process when \<open>k + 1\<close> is a multiple of 10 and
  further rows remain (a row without any field update pushes nothing and is followed by
  no wait); in the deletion of notes a wait of 1000 ms follows note \<open>k + 1\<close> when
  \<open>k + 1\<close> is a multiple of 50 and further notes remain; a run waits nowhere else, and
  the migration does not wait.
\<close>

theorem rate_limit_delays:
  "shape (fst (handleStartUpdate remote cfs p (Some rows) uuid cms s)) =
     (if uuid = [] then []
      else concat (map (\<lambda>(k, entry).
                 if list_ex (givesFieldUpdate cfs (snd entry)) (getValueColumns cms uuid)
                 then None # (if (k + 1) mod 10 = 0
                                 \<and> k + 1 < length (rowsToProcess rows uuid (getValueColumns cms uuid))
                              then [Some 200] else [])
                 else [])
               (zip [0..<length (rowsToProcess rows uuid (getValueColumns cms uuid))]
                    (rowsToProcess rows uuid (getValueColumns cms uuid)))))
   \<and> shape (snd (fst (handleDeleteDuplicates deleteNoteAction nst ds))) =
       concat (map (\<lambda>k. None # (if (k + 1) mod 50 = 0
                                     \<and> k + 1 < length (notesToDelete (ns_duplicateGroups nst))
                                  then [Some 1000] else []))
                 [0..<length (notesToDelete (ns_duplicateGroups nst))])
   \<and> shape (snd (fst (handleExecuteMigration setCustomFieldValue mcfs mst ms))) =
       replicate (length (itemsToUpdate (ms_previewItems mst))) None"
proof (intro conjI)
  show "shape (fst (handleStartUpdate remote cfs p (Some rows) uuid cms s)) =
     (if uuid = [] then []
      else concat (map (\<lambda>(k, entry).
                 if list_ex (givesFieldUpdate cfs (snd entry)) (getValueColumns cms uuid)
                 then None # (if (k + 1) mod 10 = 0
                                 \<and> k + 1 < length (rowsToProcess rows uuid (getValueColumns cms uuid))
                              then [Some 200] else [])
                 else [])
               (zip [0..<length (rowsToProcess rows uuid (getValueColumns cms uuid))]
                    (rowsToProcess rows uuid (getValueColumns cms uuid)))))"
    using updateLoop_shape [of remote cfs p uuid "getValueColumns cms uuid"
        "length (rowsToProcess rows uuid (getValueColumns cms uuid))" 0
        "rowsToProcess rows uuid (getValueColumns cms uuid)" s]
    by (simp add: handleStartUpdate_def Let_def shape_def)
  show "shape (snd (fst (handleDeleteDuplicates deleteNoteAction nst ds))) =
       concat (map (\<lambda>k. None # (if (k + 1) mod 50 = 0
                                     \<and> k + 1 < length (notesToDelete (ns_duplicateGroups nst))
                                  then [Some 1000] else []))
                 [0..<length (notesToDelete (ns_duplicateGroups nst))])"
    using deleteLoop_shape [of deleteNoteAction "ns_companies nst"
        "length (notesToDelete (ns_duplicateGroups nst))" 0 "notesToDelete (ns_duplicateGroups nst)" ds]
    by (simp add: handleDeleteDuplicates_def Let_def case_prod_beta)
  show "shape (snd (fst (handleExecuteMigration setCustomFieldValue mcfs mst ms))) =
       replicate (length (itemsToUpdate (ms_previewItems mst))) None"
    using executeItems_shape [of setCustomFieldValue mcfs "itemsToUpdate (ms_previewItems mst)" ms]
    by (simp add: handleExecuteMigration_def case_prod_beta)
qed


end
